theory Spec2Isabelle
  imports Main "HOL-Library.Word"
begin

section \<open>JavaScript values as the client handles them\<close>

text \<open>
  The client (\<^verbatim>\<open>src/lib/slack-client.ts\<close>) stores caller-supplied values in plain objects
  and reads fields of decoded JSON responses. TypeScript annotations are erased at run time,
  so the model is dynamically typed: a value is a \<open>jsval\<close>, an object is the list of its own
  enumerable properties in the order JavaScript enumerates them.

  A number is one of three things. \<open>JNum n\<close> is an integer from \<open>-2\<^sup>5\<^sup>3\<close> up to
  \<open>2\<^sup>5\<^sup>3 - 1\<close>, kept in a 54-bit word read as signed: every such integer is a number of
  JavaScript, and its text is its decimal digits. \<open>JNaN\<close> is \<^verbatim>\<open>NaN\<close>, which
  \<^verbatim>\<open>parseInt\<close> gives for a text that is no number. \<open>JNumText t\<close> is any other number (a
  fraction, an integer beyond that range, an infinity), known by the text \<open>t\<close> that
  \<^verbatim>\<open>String\<close> gives it; such a number is neither zero nor \<^verbatim>\<open>NaN\<close>. Negative zero is
  \<open>JNum 0\<close>. Strings are byte strings (UTF-8).
\<close>

datatype jsval =
    JUndefined
  | JNull
  | JBool bool
  | JNum "54 word"
  | JNaN
  | JNumText string
  | JStr string
  | JArr "jsval list"
  | JObj "(string \<times> jsval) list"

type_synonym jsobj = "(string \<times> jsval) list"

text \<open>\<^verbatim>\<open>typeof v === 'number'\<close>\<close>

fun is_number :: "jsval \<Rightarrow> bool" where
  "is_number (JNum _) = True"
| "is_number JNaN = True"
| "is_number (JNumText _) = True"
| "is_number _ = False"

text \<open>Truthiness, as \<^verbatim>\<open>if (x)\<close>, \<^verbatim>\<open>x && y\<close> and \<^verbatim>\<open>x || y\<close> test it.\<close>

fun truthy :: "jsval \<Rightarrow> bool" where
  "truthy JUndefined = False"
| "truthy JNull = False"
| "truthy (JBool b) = b"
| "truthy (JNum n) = (n \<noteq> 0)"
| "truthy JNaN = False"
| "truthy (JNumText _) = True"
| "truthy (JStr s) = (s \<noteq> [])"
| "truthy (JArr _) = True"
| "truthy (JObj _) = True"

text \<open>Property read \<^verbatim>\<open>o.k\<close> (\<open>undefined\<close> when the object has no such property).\<close>

definition obj_get :: "jsobj \<Rightarrow> string \<Rightarrow> jsval" where
  "obj_get obj k = (case map_of obj k of None \<Rightarrow> JUndefined | Some v \<Rightarrow> v)"

text \<open>
  The own keys of an object are enumerated with the array indices first, in ascending
  numeric order, and the other keys after them in the order they were created. An array
  index is the decimal text, without a leading zero, of an integer below \<open>2\<^sup>3\<^sup>2 - 1\<close>.
\<close>

definition index_value :: "string \<Rightarrow> int" where
  "index_value k = foldl (\<lambda>n c. 10 * n + (of_char c - 48)) 0 k"

definition is_array_index :: "string \<Rightarrow> bool" where
  "is_array_index k =
     (k \<noteq> [] \<and> list_all (\<lambda>c. c \<in> set ''0123456789'') k \<and>
      (if hd k = CHR ''0'' then k = ''0'' else True) \<and>
      index_value k < 4294967295)"

text \<open>Whether a new key \<open>k\<close> is enumerated before the existing key \<open>k'\<close>.\<close>

definition enumerated_before :: "string \<Rightarrow> string \<Rightarrow> bool" where
  "enumerated_before k k' =
     (is_array_index k \<and>
      (if is_array_index k' then index_value k < index_value k' else True))"

text \<open>Property write \<^verbatim>\<open>o.k = v\<close>: an existing property keeps its place; a new one takes its
  place in the enumeration order (an array index among the indices, any other key last).\<close>

fun obj_set :: "jsobj \<Rightarrow> string \<Rightarrow> jsval \<Rightarrow> jsobj" where
  "obj_set [] k v = [(k, v)]"
| "obj_set ((k', v') # rest) k v =
     (if k' = k then (k, v) # rest
      else if enumerated_before k k' then (k, v) # (k', v') # rest
      else (k', v') # obj_set rest k v)"

text \<open>Object spread \<^verbatim>\<open>{...target, ...source}\<close>: every own property of the source is written
  to the target, whatever its value (an \<open>undefined\<close>-valued property is still a property).\<close>

fun obj_spread :: "jsobj \<Rightarrow> jsobj \<Rightarrow> jsobj" where
  "obj_spread target [] = target"
| "obj_spread target ((k, v) # rest) = obj_spread (obj_set target k v) rest"

subsection \<open>Conversion to string\<close>

text \<open>Decimal text of an integer.\<close>

definition digit :: "int \<Rightarrow> char" where
  "digit d = ''0123456789'' ! nat d"

function digits :: "int \<Rightarrow> string" where
  "digits i = (if i < 10 then [digit i] else digits (i div 10) @ [digit (i mod 10)])"
  by pat_completeness auto
termination
  by (relation "measure nat") auto

declare digits.simps [simp del]

definition decimal :: "nat \<Rightarrow> string" where
  "decimal n = digits (int n)"

definition number_text :: "int \<Rightarrow> string" where
  "number_text i = (if 0 \<le> i then digits i else CHR ''-'' # digits (- i))"

text \<open>\<^verbatim>\<open>parts.join(sep)\<close>\<close>

fun join_with :: "string \<Rightarrow> string list \<Rightarrow> string" where
  "join_with sep [] = []"
| "join_with sep [s] = s"
| "join_with sep (s # t # rest) = s @ sep @ join_with sep (t # rest)"

text \<open>\<^verbatim>\<open>String(v)\<close>, which is also what \<^verbatim>\<open>URLSearchParams\<close> and template strings apply.\<close>

fun js_String :: "jsval \<Rightarrow> string" where
  "js_String JUndefined = ''undefined''"
| "js_String JNull = ''null''"
| "js_String (JBool b) = (if b then ''true'' else ''false'')"
| "js_String (JNum n) = number_text (sint n)"
| "js_String JNaN = ''NaN''"
| "js_String (JNumText t) = t"
| "js_String (JStr s) = s"
| "js_String (JArr xs) =
     join_with '','' (map (\<lambda>x. if x = JUndefined \<or> x = JNull then [] else js_String x) xs)"
| "js_String (JObj _) = ''[object Object]''"

subsection \<open>Thrown values\<close>

text \<open>A thrown value is an \<^verbatim>\<open>Error\<close> with its message, or some other value, kept by its
  \<^verbatim>\<open>String(err)\<close> form.\<close>

datatype exn = Error string | NonError string

text \<open>\<^verbatim>\<open>err instanceof Error ? err.message : String(err)\<close>\<close>

fun message_of :: "exn \<Rightarrow> string" where
  "message_of (Error m) = m"
| "message_of (NonError s) = s"

definition startsWith :: "string \<Rightarrow> string \<Rightarrow> bool" where
  "startsWith s p = (take (length p) s = p)"

section \<open>Workspace configuration and the client\<close>

record StandardAuthConfig =
  s_workspace_id :: string
  s_workspace_name :: string
  token :: string
  token_type :: string

record BrowserAuthConfig =
  b_workspace_id :: string
  b_workspace_name :: string
  workspace_url :: string
  xoxd_token :: string
  xoxc_token :: string

datatype WorkspaceConfig = Standard StandardAuthConfig | Browser BrowserAuthConfig

text \<open>The client holds its configuration and, for standard auth only, a \<^verbatim>\<open>WebClient\<close> built
  from the token.\<close>

record SlackClient =
  config :: WorkspaceConfig
  webClient :: "string option"

definition new_SlackClient :: "WorkspaceConfig \<Rightarrow> SlackClient" where
  "new_SlackClient cfg =
     \<lparr>config = cfg,
      webClient = (case cfg of Standard s \<Rightarrow> Some (token s) | Browser _ \<Rightarrow> None)\<rparr>"

section \<open>The outside world\<close>

text \<open>
  What the client cannot decide itself is supplied by a \<open>runtime\<close>: the library call
  \<^verbatim>\<open>webClient.apiCall\<close>, the global \<^verbatim>\<open>fetch\<close>, reading a file, the clock (the number
  \<^verbatim>\<open>Date.now() / 1000\<close>) and the message the engine gives the \<^verbatim>\<open>TypeError\<close> it throws when
  a property is read from \<open>undefined\<close> or \<open>null\<close>. Each answer may depend on
  everything that happened before, so each takes the trace of completed events. The trace
  is what a test double records: every \<^verbatim>\<open>request\<close> with its outcome, every direct upload,
  every file read, every line on the error console and every progress report.
\<close>

datatype fetch_body =
    UrlEncoded "(string \<times> string) list"
  | Multipart string string string

record fetch_init =
  http_method :: string
  headers :: "(string \<times> string) list"
  body :: fetch_body

record http_response =
  resp_ok :: bool
  status :: nat
  json :: "exn + jsobj"

datatype event =
    Request string jsobj "exn + jsobj"
  | Transfer jsval string string "exn + unit"
  | FileRead string "exn + string"
  | ConsoleError string
  | Progress string

type_synonym trace = "event list"

record runtime =
  apiCall :: "trace \<Rightarrow> string \<Rightarrow> jsobj \<Rightarrow> exn + jsobj"
  fetch :: "trace \<Rightarrow> jsval \<Rightarrow> fetch_init \<Rightarrow> exn + http_response"
  readFile :: "trace \<Rightarrow> string \<Rightarrow> exn + string"
  now_seconds :: "trace \<Rightarrow> jsval"
  typeError :: "jsval \<Rightarrow> string \<Rightarrow> string"


section \<open>Serialisation primitives of the platform\<close>

definition is_alnum :: "char \<Rightarrow> bool" where
  "is_alnum c =
     (let n = (of_char c :: nat)
      in (48 \<le> n \<and> n \<le> 57) \<or> (65 \<le> n \<and> n \<le> 90) \<or> (97 \<le> n \<and> n \<le> 122))"

definition percent_byte :: "char \<Rightarrow> string" where
  "percent_byte c =
     (let n = (of_char c :: nat)
      in [CHR ''%'', ''0123456789ABCDEF'' ! (n div 16), ''0123456789ABCDEF'' ! (n mod 16)])"

text \<open>\<^verbatim>\<open>encodeURIComponent\<close>: letters, digits and \<^verbatim>\<open>- _ . ! ~ * ' ( )\<close> stay, every other byte
  is percent-encoded.\<close>

definition encodeURIComponent :: "string \<Rightarrow> string" where
  "encodeURIComponent s =
     concat (map (\<lambda>c. if is_alnum c \<or> c \<in> set ''-_.!~*()'' \<or> c = CHR 0x27 then [c]
                       else percent_byte c) s)"

text \<open>\<^verbatim>\<open>new URLSearchParams(record)\<close>: one name/value pair per own property, the value
  converted with \<^verbatim>\<open>String\<close>. Nothing is left out: an \<open>undefined\<close> value becomes the text
  \<^verbatim>\<open>undefined\<close>.\<close>

definition URLSearchParams :: "jsobj \<Rightarrow> (string \<times> string) list" where
  "URLSearchParams init = map (\<lambda>(k, v). (k, js_String v)) init"

text \<open>The \<^verbatim>\<open>application/x-www-form-urlencoded\<close> text of a pair list, as \<^verbatim>\<open>fetch\<close> puts it on
  the wire: a space becomes \<^verbatim>\<open>+\<close>, letters, digits and \<^verbatim>\<open>* - . _\<close> stay, the rest is
  percent-encoded.\<close>

definition urlencode :: "string \<Rightarrow> string" where
  "urlencode s =
     concat (map (\<lambda>c. if c = CHR '' '' then ''+''
                       else if is_alnum c \<or> c \<in> set ''*-._'' then [c]
                       else percent_byte c) s)"

definition urlencoded_serialize :: "(string \<times> string) list \<Rightarrow> string" where
  "urlencoded_serialize pairs =
     join_with ''&'' (map (\<lambda>(k, v). urlencode k @ ''='' @ urlencode v) pairs)"

text \<open>\<^verbatim>\<open>JSON.stringify\<close>, which the client applies to arrays only. Inside an array
  \<open>undefined\<close> is written \<^verbatim>\<open>null\<close>; a property whose value is \<open>undefined\<close> is left out;
  \<^verbatim>\<open>NaN\<close> and the infinities are written \<^verbatim>\<open>null\<close>.\<close>

definition json_escape :: "char \<Rightarrow> string" where
  "json_escape c =
     (let n = (of_char c :: nat)
      in if n = 34 then [CHR 0x5C, CHR 0x22]
         else if n = 92 then [CHR 0x5C, CHR 0x5C]
         else if n = 8 then [CHR 0x5C, CHR ''b'']
         else if n = 9 then [CHR 0x5C, CHR ''t'']
         else if n = 10 then [CHR 0x5C, CHR ''n'']
         else if n = 12 then [CHR 0x5C, CHR ''f'']
         else if n = 13 then [CHR 0x5C, CHR ''r'']
         else if n < 32 then
           [CHR 0x5C, CHR ''u'', CHR ''0'', CHR ''0'',
            ''0123456789abcdef'' ! (n div 16), ''0123456789abcdef'' ! (n mod 16)]
         else [c])"

definition json_quote :: "string \<Rightarrow> string" where
  "json_quote s = [CHR 0x22] @ concat (map json_escape s) @ [CHR 0x22]"

fun JSON_stringify :: "jsval \<Rightarrow> string" where
  "JSON_stringify JUndefined = ''null''"
| "JSON_stringify JNull = ''null''"
| "JSON_stringify (JBool b) = (if b then ''true'' else ''false'')"
| "JSON_stringify (JNum n) = number_text (sint n)"
| "JSON_stringify JNaN = ''null''"
| "JSON_stringify (JNumText t) =
     (if t = ''Infinity'' \<or> t = ''-Infinity'' then ''null'' else t)"
| "JSON_stringify (JStr s) = json_quote s"
| "JSON_stringify (JArr xs) = ''['' @ join_with '','' (map JSON_stringify xs) @ '']''"
| "JSON_stringify (JObj ps) =
     ''{'' @ join_with '',''
       (map (\<lambda>p. json_quote (fst p) @ '':'' @ JSON_stringify (snd p))
          (filter (\<lambda>p. snd p \<noteq> JUndefined) ps)) @ ''}''"

section \<open>The two transports and the dispatcher\<close>

text \<open>Standard token request: \<^verbatim>\<open>webClient.apiCall(method, params)\<close>, every failure wrapped.\<close>

definition standardRequest ::
  "SlackClient \<Rightarrow> runtime \<Rightarrow> string \<Rightarrow> jsobj \<Rightarrow> trace \<Rightarrow> exn + jsobj" where
  "standardRequest c rt method params tr =
     (case webClient c of
        None \<Rightarrow> Inl (Error ''WebClient not initialized'')
      | Some _ \<Rightarrow>
          (case apiCall rt tr method params of
             Inr response \<Rightarrow> Inr response
           | Inl err \<Rightarrow> Inl (Error (''Slack API error: '' @ message_of err))))"

text \<open>The form body of the browser request:
  \<^verbatim>\<open>new URLSearchParams({ token: this.config.xoxc_token, ...params })\<close>.\<close>

definition formBody :: "BrowserAuthConfig \<Rightarrow> jsobj \<Rightarrow> (string \<times> string) list" where
  "formBody b params =
     URLSearchParams (obj_spread [(''token'', JStr (xoxc_token b))] params)"

definition browser_init :: "BrowserAuthConfig \<Rightarrow> jsobj \<Rightarrow> fetch_init" where
  "browser_init b params =
     (let encodedXoxdToken = encodeURIComponent (xoxd_token b)
      in \<lparr>http_method = ''POST'',
          headers =
            [(''Cookie'', ''d='' @ encodedXoxdToken),
             (''Content-Type'', ''application/x-www-form-urlencoded''),
             (''Origin'', ''https://app.slack.com''),
             (''User-Agent'', ''Mozilla/5.0 (compatible; SlackCLI/0.1.0)'')],
          body = UrlEncoded (formBody b params)\<rparr>)"

text \<open>The body of the \<^verbatim>\<open>try\<close> block.\<close>

definition browser_try ::
  "BrowserAuthConfig \<Rightarrow> runtime \<Rightarrow> string \<Rightarrow> jsobj \<Rightarrow> trace \<Rightarrow> exn + jsobj" where
  "browser_try b rt method params tr =
     (let url = workspace_url b @ ''/api/'' @ method
      in case fetch rt tr (JStr url) (browser_init b params) of
           Inl err \<Rightarrow> Inl err
         | Inr response \<Rightarrow>
             if \<not> resp_ok response then
               Inl (Error (''HTTP error! status: '' @ decimal (status response)))
             else
               (case json response of
                  Inl err \<Rightarrow> Inl err
                | Inr data \<Rightarrow>
                    if \<not> truthy (obj_get data ''ok'') then
                      Inl (Error (js_String
                        (if truthy (obj_get data ''error'') then obj_get data ''error''
                         else JStr ''Unknown API error'')))
                    else Inr data))"

text \<open>The \<^verbatim>\<open>catch\<close> block: a failure that already carries the prefix is thrown again as it
  is, any other is wrapped.\<close>

fun instanceof_Error :: "exn \<Rightarrow> bool" where
  "instanceof_Error (Error _) = True"
| "instanceof_Error (NonError _) = False"

definition browser_catch :: "exn \<Rightarrow> exn" where
  "browser_catch err =
     (if instanceof_Error err \<and> startsWith (message_of err) ''Slack API error:'' then err
      else Error (''Slack API error: '' @ message_of err))"

definition browserRequest ::
  "SlackClient \<Rightarrow> runtime \<Rightarrow> string \<Rightarrow> jsobj \<Rightarrow> trace \<Rightarrow> exn + jsobj" where
  "browserRequest c rt method params tr =
     (case config c of
        Standard _ \<Rightarrow> Inl (Error ''Invalid auth type'')
      | Browser b \<Rightarrow>
          (case browser_try b rt method params tr of
             Inl err \<Rightarrow> Inl (browser_catch err)
           | Inr data \<Rightarrow> Inr data))"

text \<open>\<^verbatim>\<open>request\<close> picks the transport by the configuration's auth type. The completed call
  is recorded with its outcome.\<close>

definition request ::
  "SlackClient \<Rightarrow> runtime \<Rightarrow> string \<Rightarrow> jsobj \<Rightarrow> trace \<Rightarrow> (exn + jsobj) \<times> trace" where
  "request c rt method params tr =
     (let r = (case config c of
                 Standard _ \<Rightarrow> standardRequest c rt method params tr
               | Browser _ \<Rightarrow> browserRequest c rt method params tr)
      in (r, tr @ [Request method params r]))"


section \<open>The typed operations\<close>

text \<open>
  Each operation shapes a parameter object and hands it to \<^verbatim>\<open>request\<close>. The shaping is
  given a name of its own (\<open>_params\<close>) so that it can be talked about; the operation is
  the dispatch of exactly that object. An options argument is the caller's object as it is
  (\<open>[]\<close> for the default \<^verbatim>\<open>{}\<close>). Arguments that the code only stores are values of any
  kind.
\<close>

text \<open>\<^verbatim>\<open>if (options.k) params.k = options.k\<close>\<close>

definition copy_if_truthy :: "jsobj \<Rightarrow> string \<Rightarrow> jsobj \<Rightarrow> jsobj" where
  "copy_if_truthy options k params =
     (if truthy (obj_get options k) then obj_set params k (obj_get options k) else params)"

text \<open>\<^verbatim>\<open>if (options.k) params.k = String(options.k)\<close>\<close>

definition copy_String_if_truthy :: "jsobj \<Rightarrow> string \<Rightarrow> jsobj \<Rightarrow> jsobj" where
  "copy_String_if_truthy options k params =
     (if truthy (obj_get options k) then obj_set params k (JStr (js_String (obj_get options k)))
      else params)"

text \<open>\<^verbatim>\<open>if (options.k !== undefined) params.k = options.k\<close>\<close>

definition copy_if_defined :: "jsobj \<Rightarrow> string \<Rightarrow> jsobj \<Rightarrow> jsobj" where
  "copy_if_defined options k params =
     (if obj_get options k \<noteq> JUndefined then obj_set params k (obj_get options k) else params)"

definition listConversations_params :: "jsobj \<Rightarrow> jsobj" where
  "listConversations_params options = options"

definition listConversations ::
  "SlackClient \<Rightarrow> runtime \<Rightarrow> jsobj \<Rightarrow> trace \<Rightarrow> (exn + jsobj) \<times> trace" where
  "listConversations c rt options tr =
     request c rt ''conversations.list'' (listConversations_params options) tr"

definition markConversationRead_params :: "jsval \<Rightarrow> jsval \<Rightarrow> jsobj" where
  "markConversationRead_params channel ts = [(''channel'', channel), (''ts'', ts)]"

definition markConversationRead ::
  "SlackClient \<Rightarrow> runtime \<Rightarrow> jsval \<Rightarrow> jsval \<Rightarrow> trace \<Rightarrow> (exn + jsobj) \<times> trace" where
  "markConversationRead c rt channel ts tr =
     request c rt ''conversations.mark'' (markConversationRead_params channel ts) tr"

definition getConversationHistory_params :: "jsval \<Rightarrow> jsobj \<Rightarrow> jsobj" where
  "getConversationHistory_params channel options =
     (copy_if_truthy options ''limit''
       (copy_if_defined options ''inclusive''
         (copy_if_truthy options ''oldest''
           (copy_if_truthy options ''latest''
             (copy_if_truthy options ''cursor''
               [(''channel'', channel)])))))"

definition getConversationHistory ::
  "SlackClient \<Rightarrow> runtime \<Rightarrow> jsval \<Rightarrow> jsobj \<Rightarrow> trace \<Rightarrow> (exn + jsobj) \<times> trace" where
  "getConversationHistory c rt channel options tr =
     request c rt ''conversations.history'' (getConversationHistory_params channel options) tr"

definition getConversationReplies_params :: "jsval \<Rightarrow> jsval \<Rightarrow> jsobj \<Rightarrow> jsobj" where
  "getConversationReplies_params channel ts options =
     (copy_if_truthy options ''limit''
       (copy_if_defined options ''inclusive''
         (copy_if_truthy options ''oldest''
           (copy_if_truthy options ''latest''
             (copy_if_truthy options ''cursor''
               [(''channel'', channel), (''ts'', ts)])))))"

definition getConversationReplies ::
  "SlackClient \<Rightarrow> runtime \<Rightarrow> jsval \<Rightarrow> jsval \<Rightarrow> jsobj \<Rightarrow> trace \<Rightarrow> (exn + jsobj) \<times> trace" where
  "getConversationReplies c rt channel ts options tr =
     request c rt ''conversations.replies'' (getConversationReplies_params channel ts options) tr"

definition postMessage_params :: "jsval \<Rightarrow> jsval \<Rightarrow> jsobj \<Rightarrow> jsobj" where
  "postMessage_params channel text options =
     copy_if_truthy options ''thread_ts'' [(''channel'', channel), (''text'', text)]"

definition postMessage ::
  "SlackClient \<Rightarrow> runtime \<Rightarrow> jsval \<Rightarrow> jsval \<Rightarrow> jsobj \<Rightarrow> trace \<Rightarrow> (exn + jsobj) \<times> trace" where
  "postMessage c rt channel text options tr =
     request c rt ''chat.postMessage'' (postMessage_params channel text options) tr"

text \<open>\<^verbatim>\<open>getThreadsView\<close>: \<^verbatim>\<open>current_ts\<close> is the text of the clock reading.\<close>

definition getThreadsView_params :: "jsval \<Rightarrow> jsobj \<Rightarrow> jsobj" where
  "getThreadsView_params now options =
     (copy_if_truthy options ''max_ts''
       (copy_String_if_truthy options ''limit''
         [(''current_ts'', JStr (js_String now))]))"

definition getThreadsView ::
  "SlackClient \<Rightarrow> runtime \<Rightarrow> jsobj \<Rightarrow> trace \<Rightarrow> (exn + jsobj) \<times> trace" where
  "getThreadsView c rt options tr =
     request c rt ''subscriptions.thread.getView''
       (getThreadsView_params (now_seconds rt tr) options) tr"

definition getUserInfo_params :: "jsval \<Rightarrow> jsobj" where
  "getUserInfo_params userId = [(''user'', userId)]"

definition getUserInfo ::
  "SlackClient \<Rightarrow> runtime \<Rightarrow> jsval \<Rightarrow> trace \<Rightarrow> (exn + jsobj) \<times> trace" where
  "getUserInfo c rt userId tr = request c rt ''users.info'' (getUserInfo_params userId) tr"

text \<open>The loop of \<^verbatim>\<open>getUsersInfo\<close>: one lookup per identifier, in order. A lookup that throws
  is reported on the error console and skipped; one that comes back without \<^verbatim>\<open>ok\<close> or
  without a \<^verbatim>\<open>user\<close> is skipped silently.\<close>

fun getUsersInfo_loop ::
  "SlackClient \<Rightarrow> runtime \<Rightarrow> jsval list \<Rightarrow> jsval list \<Rightarrow> trace \<Rightarrow> jsval list \<times> trace" where
  "getUsersInfo_loop c rt [] users tr = (users, tr)"
| "getUsersInfo_loop c rt (userId # rest) users tr =
     (case getUserInfo c rt userId tr of
        (Inr response, tr1) \<Rightarrow>
          if truthy (obj_get response ''ok'') \<and> truthy (obj_get response ''user'')
          then getUsersInfo_loop c rt rest (users @ [obj_get response ''user'']) tr1
          else getUsersInfo_loop c rt rest users tr1
      | (Inl _, tr1) \<Rightarrow>
          getUsersInfo_loop c rt rest users
            (tr1 @ [ConsoleError (''Failed to fetch user '' @ js_String userId)]))"

definition getUsersInfo ::
  "SlackClient \<Rightarrow> runtime \<Rightarrow> jsval list \<Rightarrow> trace \<Rightarrow> (exn + jsobj) \<times> trace" where
  "getUsersInfo c rt userIds tr =
     (case getUsersInfo_loop c rt userIds [] tr of
        (users, tr') \<Rightarrow> (Inr [(''ok'', JBool True), (''users'', JArr users)], tr'))"

definition searchAll_params :: "jsval \<Rightarrow> jsobj \<Rightarrow> jsobj" where
  "searchAll_params query options =
     (copy_String_if_truthy options ''page''
       (copy_String_if_truthy options ''count''
         (copy_if_truthy options ''sort_dir''
           (copy_if_truthy options ''sort''
             [(''query'', query)]))))"

definition searchAll ::
  "SlackClient \<Rightarrow> runtime \<Rightarrow> jsval \<Rightarrow> jsobj \<Rightarrow> trace \<Rightarrow> (exn + jsobj) \<times> trace" where
  "searchAll c rt query options tr =
     request c rt ''search.all'' (searchAll_params query options) tr"

section \<open>The three-step upload\<close>

definition getUploadUrl_params :: "jsval \<Rightarrow> jsval \<Rightarrow> jsobj" where
  "getUploadUrl_params filename len =
     [(''filename'', filename), (''length'', JStr (js_String len))]"

definition getUploadUrl ::
  "SlackClient \<Rightarrow> runtime \<Rightarrow> jsval \<Rightarrow> jsval \<Rightarrow> trace \<Rightarrow> (exn + jsobj) \<times> trace" where
  "getUploadUrl c rt filename len tr =
     request c rt ''files.getUploadURLExternal'' (getUploadUrl_params filename len) tr"

text \<open>Step 2 posts the bytes straight to the presigned URL, outside both transports.\<close>

definition uploadToUrl ::
  "runtime \<Rightarrow> jsval \<Rightarrow> string \<Rightarrow> string \<Rightarrow> trace \<Rightarrow> (exn + unit) \<times> trace" where
  "uploadToUrl rt uploadUrl fileContent filename tr =
     (let r =
        (case fetch rt tr uploadUrl
                \<lparr>http_method = ''POST'', headers = [],
                 body = Multipart ''file'' fileContent filename\<rparr> of
           Inl err \<Rightarrow> Inl err
         | Inr response \<Rightarrow>
             if \<not> resp_ok response then
               Inl (Error (''File upload failed: HTTP '' @ decimal (status response)))
             else Inr ())
      in (r, tr @ [Transfer uploadUrl fileContent filename r]))"

definition completeUpload_params :: "jsval list \<Rightarrow> jsobj \<Rightarrow> jsobj" where
  "completeUpload_params files options =
     (copy_if_truthy options ''initial_comment''
       (copy_if_truthy options ''thread_ts''
         (copy_if_truthy options ''channel_id''
           [(''files'', JStr (JSON_stringify (JArr files)))])))"

definition completeUpload ::
  "SlackClient \<Rightarrow> runtime \<Rightarrow> jsval list \<Rightarrow> jsobj \<Rightarrow> trace \<Rightarrow> (exn + jsobj) \<times> trace" where
  "completeUpload c rt files options tr =
     request c rt ''files.completeUploadExternal'' (completeUpload_params files options) tr"

text \<open>The options of \<^verbatim>\<open>uploadFiles\<close>. \<open>titles\<close> is the array when one is given; \<open>onProgress\<close>
  says whether a progress sink is given (a sink records the step and returns).\<close>

record upload_options =
  channel_id :: jsval
  thread_ts :: jsval
  titles :: "jsval list option"
  initial_comment :: jsval
  onProgress :: bool

text \<open>\<^verbatim>\<open>options.onProgress?.(step)\<close>\<close>

definition report :: "upload_options \<Rightarrow> string \<Rightarrow> trace \<Rightarrow> trace" where
  "report options step tr = (if onProgress options then tr @ [Progress step] else tr)"

text \<open>\<^verbatim>\<open>options.titles?.[i]\<close>\<close>

definition title_at :: "upload_options \<Rightarrow> nat \<Rightarrow> jsval" where
  "title_at options i =
     (case titles options of
        None \<Rightarrow> JUndefined
      | Some ts \<Rightarrow> if i < length ts then ts ! i else JUndefined)"

text \<open>\<^verbatim>\<open>fileContent.byteLength\<close>: a byte array holds fewer than \<open>2\<^sup>5\<^sup>3\<close> bytes.\<close>

definition byteLength :: "string \<Rightarrow> jsval" where
  "byteLength fileContent = JNum (of_nat (length fileContent))"

text \<open>\<^verbatim>\<open>filePath.split('/').pop() || 'file'\<close>\<close>

definition filename_of :: "string \<Rightarrow> string" where
  "filename_of filePath =
     (let lastPart = rev (takeWhile (\<lambda>c. c \<noteq> CHR ''/'') (rev filePath))
      in if lastPart = [] then ''file'' else lastPart)"

text \<open>\<^verbatim>\<open>const entry = { id: file_id }; if (options.titles?.[i]) entry.title = options.titles[i]\<close>\<close>

definition make_entry :: "jsval \<Rightarrow> jsval \<Rightarrow> jsval" where
  "make_entry file_id title =
     JObj (if truthy title then obj_set [(''id'', file_id)] ''title'' title
           else [(''id'', file_id)])"

text \<open>The \<^verbatim>\<open>for\<close> loop of \<^verbatim>\<open>uploadFiles\<close>, from index \<open>i\<close> with the entries gathered so far.
  The first failure of a read, a slot request or a transfer leaves the loop.\<close>

function uploadFiles_loop ::
  "SlackClient \<Rightarrow> runtime \<Rightarrow> string list \<Rightarrow> upload_options \<Rightarrow> nat \<Rightarrow> jsval list \<Rightarrow> trace
   \<Rightarrow> (exn + jsval list) \<times> trace" where
  "uploadFiles_loop c rt filePaths options i fileEntries tr =
     (if i < length filePaths then
        (let filePath = filePaths ! i
         in case readFile rt tr filePath of
              Inl err \<Rightarrow> (Inl err, tr @ [FileRead filePath (Inl err)])
            | Inr fileContent \<Rightarrow>
                (let tr1 = tr @ [FileRead filePath (Inr fileContent)];
                     filename = filename_of filePath;
                     tr2 = report options
                             (''Uploading file '' @ decimal (i + 1) @ ''/'' @
                              decimal (length filePaths) @ '': '' @ filename) tr1
                 in case getUploadUrl c rt (JStr filename) (byteLength fileContent) tr2 of
                      (Inl err, tr3) \<Rightarrow> (Inl err, tr3)
                    | (Inr slot, tr3) \<Rightarrow>
                        (case uploadToUrl rt (obj_get slot ''upload_url'') fileContent filename tr3 of
                           (Inl err, tr4) \<Rightarrow> (Inl err, tr4)
                         | (Inr _, tr4) \<Rightarrow>
                             uploadFiles_loop c rt filePaths options (i + 1)
                               (fileEntries @
                                  [make_entry (obj_get slot ''file_id'') (title_at options i)])
                               tr4)))
      else (Inr fileEntries, tr))"
  by pat_completeness auto
termination
  by (relation "measure (\<lambda>(c, rt, filePaths, options, i, fileEntries, tr). length filePaths - i)")
     auto

declare uploadFiles_loop.simps [simp del]

definition uploadFiles ::
  "SlackClient \<Rightarrow> runtime \<Rightarrow> string list \<Rightarrow> upload_options \<Rightarrow> trace \<Rightarrow> (exn + jsobj) \<times> trace" where
  "uploadFiles c rt filePaths options tr =
     (case uploadFiles_loop c rt filePaths options 0 [] tr of
        (Inl err, tr1) \<Rightarrow> (Inl err, tr1)
      | (Inr fileEntries, tr1) \<Rightarrow>
          completeUpload c rt fileEntries
            [(''channel_id'', channel_id options),
             (''thread_ts'', thread_ts options),
             (''initial_comment'', initial_comment options)]
            (report options ''Finalizing upload...'' tr1))"

section \<open>The \<^verbatim>\<open>mark-read\<close> command\<close>

text \<open>What the command ends with: nothing to mark, a conversation marked up to a
  timestamp, or a failure (message printed, exit status 1).\<close>

datatype mark_outcome = NothingToMark | Marked jsval jsval | MarkFailed string

text \<open>\<^verbatim>\<open>history.messages || []\<close>: the value itself when it is truthy, of whatever kind.\<close>

definition messages_or_empty :: "jsobj \<Rightarrow> jsval" where
  "messages_or_empty history =
     (if truthy (obj_get history ''messages'') then obj_get history ''messages'' else JArr [])"

text \<open>\<^verbatim>\<open>messages.length === 0\<close>. An array and a string have a length; an object has the
  \<^verbatim>\<open>length\<close> it was given, if any; a boolean or a number has none.\<close>

fun length_is_zero :: "jsval \<Rightarrow> bool" where
  "length_is_zero (JArr ms) = (ms = [])"
| "length_is_zero (JStr s) = (s = [])"
| "length_is_zero (JObj props) = (obj_get props ''length'' = JNum 0)"
| "length_is_zero _ = False"

text \<open>\<^verbatim>\<open>message.ts\<close>: reading a property of \<open>undefined\<close> or \<open>null\<close> throws a \<^verbatim>\<open>TypeError\<close>; an
  object gives its property; any other value has no \<^verbatim>\<open>ts\<close>.\<close>

fun ts_of :: "runtime \<Rightarrow> jsval \<Rightarrow> exn + jsval" where
  "ts_of rt JUndefined = Inl (Error (typeError rt JUndefined ''ts''))"
| "ts_of rt JNull = Inl (Error (typeError rt JNull ''ts''))"
| "ts_of rt (JObj props) = Inr (obj_get props ''ts'')"
| "ts_of rt _ = Inr JUndefined"

text \<open>\<^verbatim>\<open>messages[0].ts\<close>. Element 0 of an array is its first element, of an object its
  property \<^verbatim>\<open>0\<close>, of a non-empty string a one-character string (which has no \<^verbatim>\<open>ts\<close>); an
  empty array or string, a boolean and a number have no element 0.\<close>

fun first_ts :: "runtime \<Rightarrow> jsval \<Rightarrow> exn + jsval" where
  "first_ts rt (JArr []) = ts_of rt JUndefined"
| "first_ts rt (JArr (m # ms)) = ts_of rt m"
| "first_ts rt (JObj props) = ts_of rt (obj_get props ''0'')"
| "first_ts rt (JStr []) = ts_of rt JUndefined"
| "first_ts rt (JStr (c # s)) = Inr JUndefined"
| "first_ts rt JUndefined = Inl (Error (typeError rt JUndefined ''0''))"
| "first_ts rt JNull = Inl (Error (typeError rt JNull ''0''))"
| "first_ts rt _ = ts_of rt JUndefined"

text \<open>\<^verbatim>\<open>await client.markConversationRead(channelId, ts)\<close> and the report of its outcome.\<close>

definition mark_with ::
  "SlackClient \<Rightarrow> runtime \<Rightarrow> jsval \<Rightarrow> jsval \<Rightarrow> trace \<Rightarrow> mark_outcome \<times> trace" where
  "mark_with c rt channelId ts tr =
     (case markConversationRead c rt channelId ts tr of
        (Inl err, tr1) \<Rightarrow> (MarkFailed (message_of err), tr1)
      | (Inr _, tr1) \<Rightarrow> (Marked channelId ts, tr1))"

definition mark_read_action ::
  "SlackClient \<Rightarrow> runtime \<Rightarrow> jsval \<Rightarrow> jsval \<Rightarrow> trace \<Rightarrow> mark_outcome \<times> trace" where
  "mark_read_action c rt channelId timestamp tr =
     (if \<not> truthy timestamp then
        (case getConversationHistory c rt channelId [(''limit'', JNum 1)] tr of
           (Inl err, tr1) \<Rightarrow> (MarkFailed (message_of err), tr1)
         | (Inr history, tr1) \<Rightarrow>
             (let messages = messages_or_empty history
              in if length_is_zero messages then (NothingToMark, tr1)
                 else (case first_ts rt messages of
                         Inl err \<Rightarrow> (MarkFailed (message_of err), tr1)
                       | Inr ts \<Rightarrow> mark_with c rt channelId ts tr1)))
      else mark_with c rt channelId timestamp tr)"

section \<open>Observations on a trace\<close>

text \<open>The requests made to one method, each with its parameter object and its outcome, in
  the order they were made.\<close>

fun requests_to :: "string \<Rightarrow> trace \<Rightarrow> (jsobj \<times> (exn + jsobj)) list" where
  "requests_to method [] = []"
| "requests_to method (Request m params r # rest) =
     (if m = method then (params, r) # requests_to method rest else requests_to method rest)"
| "requests_to method (_ # rest) = requests_to method rest"

text \<open>What a user lookup yields: the user of an \<^verbatim>\<open>ok\<close> response that has one. A lookup has
  failed when it yields none, be it that it threw or that the response was unusable.\<close>

fun resolved_user :: "exn + jsobj \<Rightarrow> jsval option" where
  "resolved_user (Inl _) = None"
| "resolved_user (Inr response) =
     (if truthy (obj_get response ''ok'') \<and> truthy (obj_get response ''user'')
      then Some (obj_get response ''user'') else None)"

definition lookup_failed :: "exn + jsobj \<Rightarrow> bool" where
  "lookup_failed r = (resolved_user r = None)"

text \<open>A failed step of an upload round: a file that could not be read, a slot request that
  threw, a transfer that threw.\<close>

fun failed_step :: "event \<Rightarrow> bool" where
  "failed_step (FileRead _ (Inl _)) = True"
| "failed_step (Request method _ (Inl _)) = (method = ''files.getUploadURLExternal'')"
| "failed_step (Transfer _ _ _ (Inl _)) = True"
| "failed_step _ = False"

fun failure_of :: "event \<Rightarrow> exn option" where
  "failure_of (FileRead _ (Inl err)) = Some err"
| "failure_of (Request _ _ (Inl err)) = Some err"
| "failure_of (Transfer _ _ _ (Inl err)) = Some err"
| "failure_of _ = None"

section \<open>Sample inputs\<close>

definition sample_browser :: BrowserAuthConfig where
  "sample_browser =
     \<lparr>b_workspace_id = ''T1'', b_workspace_name = ''acme'',
      workspace_url = ''https://acme.slack.com'',
      xoxd_token = ''xoxd-a/b'', xoxc_token = ''xoxc-1''\<rparr>"

definition sample_standard :: StandardAuthConfig where
  "sample_standard =
     \<lparr>s_workspace_id = ''T1'', s_workspace_name = ''acme'',
      token = ''xoxb-1'', token_type = ''bot''\<rparr>"

definition browser_client :: SlackClient where
  "browser_client = new_SlackClient (Browser sample_browser)"

definition standard_client :: SlackClient where
  "standard_client = new_SlackClient (Standard sample_standard)"

text \<open>A server that answers every request with success and echoes what it was sent.\<close>

definition echo_rt :: runtime where
  "echo_rt =
     \<lparr>apiCall = (\<lambda>tr method params. Inr ((''ok'', JBool True) # params)),
      fetch = (\<lambda>tr url init.
        Inr \<lparr>resp_ok = True, status = 200,
             json = Inr [(''ok'', JBool True), (''url'', url),
                         (''sent'', JStr (case body init of
                             UrlEncoded pairs \<Rightarrow> urlencoded_serialize pairs
                           | Multipart name content filename \<Rightarrow> content))]\<rparr>),
      readFile = (\<lambda>tr path. Inr path),
      now_seconds = (\<lambda>tr. JNumText ''1700000000.123''),
      typeError = (\<lambda>v k. ''undefined is not an object'')\<rparr>"

text \<open>A workspace whose history holds the given messages.\<close>

definition history_rt :: "jsval list \<Rightarrow> runtime" where
  "history_rt messages =
     \<lparr>apiCall = (\<lambda>tr method params.
        if method = ''conversations.history''
        then Inr [(''ok'', JBool True), (''messages'', JArr messages)]
        else Inr [(''ok'', JBool True)]),
      fetch = (\<lambda>tr url init. Inl (Error ''fetch failed'')),
      readFile = (\<lambda>tr path. Inl (Error ''ENOENT'')),
      now_seconds = (\<lambda>tr. JNumText ''1700000000.123''),
      typeError = (\<lambda>v k. ''undefined is not an object'')\<rparr>"

text \<open>A workspace that does not know user \<^verbatim>\<open>U2\<close>, answers without a user for \<^verbatim>\<open>U3\<close>, and
  knows everybody else.\<close>

definition lookup_rt :: runtime where
  "lookup_rt =
     \<lparr>apiCall = (\<lambda>tr method params.
        if obj_get params ''user'' = JStr ''U2'' then Inl (Error ''user_not_found'')
        else if obj_get params ''user'' = JStr ''U3'' then Inr [(''ok'', JBool True)]
        else Inr [(''ok'', JBool True), (''user'', JObj [(''id'', obj_get params ''user'')])]),
      fetch = (\<lambda>tr url init. Inl (Error ''fetch failed'')),
      readFile = (\<lambda>tr path. Inl (Error ''ENOENT'')),
      now_seconds = (\<lambda>tr. JNumText ''1700000000.123''),
      typeError = (\<lambda>v k. ''undefined is not an object'')\<rparr>"

text \<open>An upload service that numbers the files by the events seen so far and refuses the
  transfer of one file name.\<close>

definition upload_rt :: "string \<Rightarrow> runtime" where
  "upload_rt bad =
     \<lparr>apiCall = (\<lambda>tr method params.
        if method = ''files.getUploadURLExternal''
        then Inr [(''ok'', JBool True),
                  (''upload_url'', JStr (''https://up/'' @ js_String (obj_get params ''filename''))),
                  (''file_id'', JStr (''F'' @ decimal (length tr)))]
        else Inr [(''ok'', JBool True)]),
      fetch = (\<lambda>tr url init.
        if url = JStr (''https://up/'' @ bad)
        then Inr \<lparr>resp_ok = False, status = 500, json = Inl (Error ''no body'')\<rparr>
        else Inr \<lparr>resp_ok = True, status = 200, json = Inr []\<rparr>),
      readFile = (\<lambda>tr path. Inr ''data''),
      now_seconds = (\<lambda>tr. JNumText ''1700000000.123''),
      typeError = (\<lambda>v k. ''undefined is not an object'')\<rparr>"

definition sample_upload_options :: upload_options where
  "sample_upload_options =
     \<lparr>channel_id = JStr ''C1'', thread_ts = JUndefined,
      titles = Some [JStr ''First'', JStr []], initial_comment = JUndefined,
      onProgress = False\<rparr>"

definition sample_paths :: "string list" where
  "sample_paths = [''/tmp/a.txt'', ''/tmp/b.txt'', ''c.txt'']"


section \<open>Properties of objects and of the form body\<close>

lemma obj_get_set: "obj_get (obj_set obj k v) k' = (if k' = k then v else obj_get obj k')"
  by (induction obj) (auto simp: obj_get_def)

lemma map_of_obj_set: "map_of (obj_set obj k v) = (map_of obj)(k \<mapsto> v)"
  by (induction obj) (auto simp: fun_eq_iff)

lemma keys_obj_set: "fst ` set (obj_set obj k v) = insert k (fst ` set obj)"
  by (simp add: dom_map_of_conv_image_fst [symmetric] map_of_obj_set)

lemma keys_obj_spread: "fst ` set (obj_spread t s) = fst ` set t \<union> fst ` set s"
proof (induction t s rule: obj_spread.induct)
  case (1 target)
  show ?case by simp
next
  case (2 target k v rest)
  show ?case
    unfolding obj_spread.simps "2.IH" keys_obj_set by auto
qed

lemma map_of_obj_spread:
  "distinct (map fst s) \<Longrightarrow>
   map_of (obj_spread t s) k = (case map_of s k of Some v \<Rightarrow> Some v | None \<Rightarrow> map_of t k)"
proof (induction t s rule: obj_spread.induct)
  case (1 target)
  show ?case by simp
next
  case (2 target k' v rest)
  then have "map_of rest k' = None"
    by (simp add: map_of_eq_None_iff)
  with 2 show ?case
    by (auto simp: map_of_obj_set split: option.splits)
qed

lemma map_of_URLSearchParams:
  "map_of (URLSearchParams obj) k = map_option js_String (map_of obj k)"
  by (induction obj) (auto simp: URLSearchParams_def)

lemma keys_URLSearchParams: "fst ` set (URLSearchParams obj) = fst ` set obj"
  by (force simp: URLSearchParams_def image_iff)

lemma obj_get_copy:
  "obj_get (copy_if_truthy options k params) k' =
     (if k' = k \<and> truthy (obj_get options k) then obj_get options k else obj_get params k')"
  "obj_get (copy_String_if_truthy options k params) k' =
     (if k' = k \<and> truthy (obj_get options k) then JStr (js_String (obj_get options k))
      else obj_get params k')"
  "obj_get (copy_if_defined options k params) k' =
     (if k' = k \<and> obj_get options k \<noteq> JUndefined then obj_get options k
      else obj_get params k')"
  by (auto simp: copy_if_truthy_def copy_String_if_truthy_def copy_if_defined_def obj_get_set)

lemma option_keys_not_indices:
  "\<not> is_array_index ''cursor''" "\<not> is_array_index ''latest''" "\<not> is_array_index ''oldest''"
  "\<not> is_array_index ''inclusive''" "\<not> is_array_index ''limit''"
  by (simp_all add: is_array_index_def)

lemma distinct_obj_set:
  "\<not> is_array_index k \<Longrightarrow> distinct (map fst obj) \<Longrightarrow> distinct (map fst (obj_set obj k v))"
  by (induction obj) (auto simp: keys_obj_set enumerated_before_def)

lemma distinct_copy:
  "\<not> is_array_index k \<Longrightarrow> distinct (map fst params) \<Longrightarrow>
   distinct (map fst (copy_if_truthy options k params))"
  "\<not> is_array_index k \<Longrightarrow> distinct (map fst params) \<Longrightarrow>
   distinct (map fst (copy_String_if_truthy options k params))"
  "\<not> is_array_index k \<Longrightarrow> distinct (map fst params) \<Longrightarrow>
   distinct (map fst (copy_if_defined options k params))"
  by (simp_all add: copy_if_truthy_def copy_String_if_truthy_def copy_if_defined_def distinct_obj_set)

lemma keys_copy:
  "fst ` set (copy_if_truthy options k params) =
     (if truthy (obj_get options k) then insert k (fst ` set params) else fst ` set params)"
  "fst ` set (copy_String_if_truthy options k params) =
     (if truthy (obj_get options k) then insert k (fst ` set params) else fst ` set params)"
  "fst ` set (copy_if_defined options k params) =
     (if obj_get options k \<noteq> JUndefined then insert k (fst ` set params) else fst ` set params)"
  by (simp_all add: copy_if_truthy_def copy_String_if_truthy_def copy_if_defined_def keys_obj_set)

lemma distinct_history_params: "distinct (map fst (getConversationHistory_params channel options))"
  by (simp add: getConversationHistory_params_def distinct_copy option_keys_not_indices)

lemma distinct_replies_params: "distinct (map fst (getConversationReplies_params channel ts options))"
  by (simp add: getConversationReplies_params_def distinct_copy option_keys_not_indices)

lemma obj_get_map_of: "k \<in> fst ` set obj \<Longrightarrow> map_of obj k = Some (obj_get obj k)"
  by (cases "map_of obj k") (auto simp: obj_get_def map_of_eq_None_iff)

lemma formBody_value:
  "distinct (map fst params) \<Longrightarrow> k \<in> fst ` set params \<Longrightarrow>
   map_of (formBody b params) k = Some (js_String (obj_get params k))"
  by (simp add: formBody_def map_of_URLSearchParams map_of_obj_spread obj_get_map_of)

lemma number_truthy: "is_number v \<Longrightarrow> truthy v = (v \<noteq> JNum 0 \<and> v \<noteq> JNaN)"
  by (cases v) simp_all

lemma searchAll_count:
  "obj_get (searchAll_params query options) ''count'' =
     (if truthy (obj_get options ''count'') then JStr (js_String (obj_get options ''count''))
      else JUndefined)"
  "(''count'' \<in> fst ` set (searchAll_params query options)) = truthy (obj_get options ''count'')"
  by (simp_all add: searchAll_params_def obj_get_copy keys_copy) (simp add: obj_get_def)

lemma searchAll_page:
  "obj_get (searchAll_params query options) ''page'' =
     (if truthy (obj_get options ''page'') then JStr (js_String (obj_get options ''page''))
      else JUndefined)"
  "(''page'' \<in> fst ` set (searchAll_params query options)) = truthy (obj_get options ''page'')"
  by (simp_all add: searchAll_params_def obj_get_copy keys_copy) (simp add: obj_get_def)

lemma threads_limit:
  "obj_get (getThreadsView_params now options) ''limit'' =
     (if truthy (obj_get options ''limit'') then JStr (js_String (obj_get options ''limit''))
      else JUndefined)"
  "(''limit'' \<in> fst ` set (getThreadsView_params now options)) =
     truthy (obj_get options ''limit'')"
  by (simp_all add: getThreadsView_params_def obj_get_copy keys_copy) (simp add: obj_get_def)

lemma history_limit:
  "obj_get (getConversationHistory_params channel options) ''limit'' =
     (if truthy (obj_get options ''limit'') then obj_get options ''limit'' else JUndefined)"
  "(''limit'' \<in> fst ` set (getConversationHistory_params channel options)) =
     truthy (obj_get options ''limit'')"
  by (simp_all add: getConversationHistory_params_def obj_get_copy keys_copy)
     (simp add: obj_get_def)

lemma replies_limit:
  "obj_get (getConversationReplies_params channel ts options) ''limit'' =
     (if truthy (obj_get options ''limit'') then obj_get options ''limit'' else JUndefined)"
  "(''limit'' \<in> fst ` set (getConversationReplies_params channel ts options)) =
     truthy (obj_get options ''limit'')"
  by (simp_all add: getConversationReplies_params_def obj_get_copy keys_copy)
     (simp add: obj_get_def)

lemma request_trace:
  "snd (request c rt method params tr) =
     tr @ [Request method params (fst (request c rt method params tr))]"
  by (simp add: request_def Let_def)

section \<open>The browser transport\<close>

text \<open>
  C1, as stated: a parameter whose value is \<open>undefined\<close> never reaches the form body of
  \<^verbatim>\<open>browserRequest\<close>. The transport does not do that. It spreads the parameter object
  under the token and hands it to \<^verbatim>\<open>URLSearchParams\<close>, which writes \<open>undefined\<close> as text:
  a server that echoes the body it received shows \<^verbatim>\<open>cursor=undefined\<close>.
\<close>

theorem browserRequest_undefined_counterexample:
  "browserRequest browser_client echo_rt ''conversations.list''
     [(''types'', JStr ''im''), (''cursor'', JUndefined)] [] =
   Inr [(''ok'', JBool True),
        (''url'', JStr ''https://acme.slack.com/api/conversations.list''),
        (''sent'', JStr ''token=xoxc-1&types=im&cursor=undefined'')] \<and>
   (''cursor'', ''undefined'') \<in>
     set (formBody sample_browser [(''types'', JStr ''im''), (''cursor'', JUndefined)])"
  by code_simp

text \<open>
  C1, amended: the form body of \<^verbatim>\<open>browserRequest\<close> holds the token and every key of the
  parameter object it is given, and no other key. A key of the object is written with the
  \<^verbatim>\<open>String\<close> form of its value, so an \<open>undefined\<close> value is written as the text
  \<^verbatim>\<open>undefined\<close>; only a key that the caller left out of the object is absent from the body.
\<close>

theorem formBody_serialises_every_key:
  "fst ` set (formBody b params) = insert ''token'' (fst ` set params) \<and>
   (distinct (map fst params) \<longrightarrow>
      map_of (formBody b params) k =
        (case map_of params k of
           Some v \<Rightarrow> Some (js_String v)
         | None \<Rightarrow> if k = ''token'' then Some (xoxc_token b) else None))"
  by (auto simp: formBody_def keys_URLSearchParams keys_obj_spread map_of_URLSearchParams
      map_of_obj_spread split: option.splits)

theorem formBody_serialises_every_key_witness:
  "distinct (map fst [(''types'', JStr ''im''), (''cursor'', JUndefined)]) \<and>
   map_of (formBody sample_browser [(''types'', JStr ''im''), (''cursor'', JUndefined)])
     ''cursor'' = Some ''undefined'' \<and>
   map_of (formBody sample_browser [(''types'', JStr ''im''), (''cursor'', JUndefined)])
     ''limit'' = None"
  using formBody_serialises_every_key
    [of sample_browser "[(''types'', JStr ''im''), (''cursor'', JUndefined)]" "''cursor''"]
    formBody_serialises_every_key
    [of sample_browser "[(''types'', JStr ''im''), (''cursor'', JUndefined)]" "''limit''"]
  by simp

text \<open>
  C3: the failure wrapping of the browser transport is idempotent. A failure whose message
  already starts with \<^verbatim>\<open>Slack API error:\<close> is thrown again unchanged, and wrapping an
  arbitrary failure twice gives what wrapping it once gives.
\<close>

theorem browser_catch_idempotent:
  "browser_catch (browser_catch err) = browser_catch err \<and>
   browser_catch (Error (''Slack API error:'' @ rest)) = Error (''Slack API error:'' @ rest)"
  by (simp add: browser_catch_def startsWith_def)


section \<open>Parameter shaping\<close>

text \<open>The history and replies operations leave a falsy cursor out of the mapping.\<close>

lemma falsy_cursor_omitted:
  assumes "\<not> truthy (obj_get options ''cursor'')"
  shows "''cursor'' \<notin> fst ` set (getConversationHistory_params channel options)"
    and "''cursor'' \<notin> fst ` set (getConversationReplies_params channel ts options)"
  using assms
  by (simp_all add: getConversationHistory_params_def getConversationReplies_params_def
      keys_copy)

text \<open>
  C5, at the input where the code departs from it: \<^verbatim>\<open>listConversations\<close> hands its options
  object to \<^verbatim>\<open>request\<close> as it is, so an empty-string cursor stays in the outbound mapping
  (and reaches the wire as \<^verbatim>\<open>cursor=\<close>), while an absent cursor gives a mapping without
  the key. At the same input \<^verbatim>\<open>getConversationHistory\<close> and \<^verbatim>\<open>getConversationReplies\<close>
  give the mapping they give for an absent cursor, with no cursor key.
\<close>

theorem listConversations_keeps_empty_cursor:
  "listConversations_params [(''cursor'', JStr [])] = [(''cursor'', JStr [])] \<and>
   listConversations_params [] = [] \<and>
   listConversations browser_client echo_rt [(''cursor'', JStr [])] [] =
     (Inr [(''ok'', JBool True),
           (''url'', JStr ''https://acme.slack.com/api/conversations.list''),
           (''sent'', JStr ''token=xoxc-1&cursor='')],
      [Request ''conversations.list'' [(''cursor'', JStr [])]
         (Inr [(''ok'', JBool True),
               (''url'', JStr ''https://acme.slack.com/api/conversations.list''),
               (''sent'', JStr ''token=xoxc-1&cursor='')])]) \<and>
   getConversationHistory_params (JStr ''C1'') [(''cursor'', JStr [])] =
     [(''channel'', JStr ''C1'')] \<and>
   getConversationHistory_params (JStr ''C1'') [] = [(''channel'', JStr ''C1'')] \<and>
   getConversationReplies_params (JStr ''C1'') (JStr ''1.0'') [(''cursor'', JStr [])] =
     [(''channel'', JStr ''C1''), (''ts'', JStr ''1.0'')] \<and>
   getConversationReplies_params (JStr ''C1'') (JStr ''1.0'') [] =
     [(''channel'', JStr ''C1''), (''ts'', JStr ''1.0'')]"
  by code_simp

text \<open>
  C6, as stated: every numeric option is put into the parameter mapping as a string. The
  history operation does not: \<^verbatim>\<open>limit: 5\<close> is in the mapping, and in what the standard
  transport passes on, as the number 5.
\<close>

theorem getConversationHistory_limit_counterexample:
  "getConversationHistory_params (JStr ''C1'') [(''limit'', JNum 5)] =
     [(''channel'', JStr ''C1''), (''limit'', JNum 5)] \<and>
   obj_get (getConversationHistory_params (JStr ''C1'') [(''limit'', JNum 5)]) ''limit''
     \<noteq> JStr (js_String (JNum 5)) \<and>
   snd (getConversationHistory standard_client echo_rt (JStr ''C1'') [(''limit'', JNum 5)] []) =
     [Request ''conversations.history'' [(''channel'', JStr ''C1''), (''limit'', JNum 5)]
        (Inr [(''ok'', JBool True), (''channel'', JStr ''C1''), (''limit'', JNum 5)])]"
  by code_simp


text \<open>
  C6, amended: \<^verbatim>\<open>getUploadUrl\<close> always puts \<^verbatim>\<open>length\<close> into the mapping in \<^verbatim>\<open>String\<close> form.
  \<^verbatim>\<open>searchAll\<close> puts a supplied \<^verbatim>\<open>count\<close> and \<^verbatim>\<open>page\<close>, and \<^verbatim>\<open>getThreadsView\<close> a supplied
  \<^verbatim>\<open>limit\<close>, into the mapping in \<^verbatim>\<open>String\<close> form, unless the number is 0 or \<^verbatim>\<open>NaN\<close>: then the
  key is left out. \<^verbatim>\<open>getConversationHistory\<close> and \<^verbatim>\<open>getConversationReplies\<close> put a supplied
  \<^verbatim>\<open>limit\<close> into the mapping as the number it is, again unless it is 0 or \<^verbatim>\<open>NaN\<close>, when the
  key is left out; such a number gets its string form in the form body that the browser
  transport builds. \<^verbatim>\<open>listConversations\<close> passes \<^verbatim>\<open>limit\<close> through untouched.
\<close>

theorem numeric_options_shaping:
  "is_number v \<longrightarrow>
     truthy v = (v \<noteq> JNum 0 \<and> v \<noteq> JNaN) \<and>
     obj_get (getUploadUrl_params filename v) ''length'' = JStr (js_String v) \<and>
     obj_get (listConversations_params options) ''limit'' = obj_get options ''limit'' \<and>
     (obj_get options ''count'' = v \<longrightarrow>
        (if truthy v
         then obj_get (searchAll_params query options) ''count'' = JStr (js_String v)
         else ''count'' \<notin> fst ` set (searchAll_params query options))) \<and>
     (obj_get options ''page'' = v \<longrightarrow>
        (if truthy v
         then obj_get (searchAll_params query options) ''page'' = JStr (js_String v)
         else ''page'' \<notin> fst ` set (searchAll_params query options))) \<and>
     (obj_get options ''limit'' = v \<longrightarrow>
        (if truthy v
         then obj_get (getThreadsView_params now options) ''limit'' = JStr (js_String v) \<and>
              obj_get (getConversationHistory_params channel options) ''limit'' = v \<and>
              obj_get (getConversationReplies_params channel ts options) ''limit'' = v \<and>
              map_of (formBody b (getConversationHistory_params channel options)) ''limit'' =
                Some (js_String v) \<and>
              map_of (formBody b (getConversationReplies_params channel ts options)) ''limit'' =
                Some (js_String v)
         else ''limit'' \<notin> fst ` set (getThreadsView_params now options) \<and>
              ''limit'' \<notin> fst ` set (getConversationHistory_params channel options) \<and>
              ''limit'' \<notin> fst ` set (getConversationReplies_params channel ts options)))"
proof
  assume num: "is_number v"
  have t: "truthy v = (v \<noteq> JNum 0 \<and> v \<noteq> JNaN)"
    using num by (rule number_truthy)
  have len: "obj_get (getUploadUrl_params filename v) ''length'' = JStr (js_String v)"
    by (simp add: getUploadUrl_params_def obj_get_def)
  have list: "obj_get (listConversations_params options) ''limit'' = obj_get options ''limit''"
    by (simp add: listConversations_params_def)
  have count: "obj_get options ''count'' = v \<longrightarrow>
        (if truthy v
         then obj_get (searchAll_params query options) ''count'' = JStr (js_String v)
         else ''count'' \<notin> fst ` set (searchAll_params query options))"
    by (simp add: searchAll_count)
  have page: "obj_get options ''page'' = v \<longrightarrow>
        (if truthy v
         then obj_get (searchAll_params query options) ''page'' = JStr (js_String v)
         else ''page'' \<notin> fst ` set (searchAll_params query options))"
    by (simp add: searchAll_page)
  have limit: "obj_get options ''limit'' = v \<longrightarrow>
        (if truthy v
         then obj_get (getThreadsView_params now options) ''limit'' = JStr (js_String v) \<and>
              obj_get (getConversationHistory_params channel options) ''limit'' = v \<and>
              obj_get (getConversationReplies_params channel ts options) ''limit'' = v \<and>
              map_of (formBody b (getConversationHistory_params channel options)) ''limit'' =
                Some (js_String v) \<and>
              map_of (formBody b (getConversationReplies_params channel ts options)) ''limit'' =
                Some (js_String v)
         else ''limit'' \<notin> fst ` set (getThreadsView_params now options) \<and>
              ''limit'' \<notin> fst ` set (getConversationHistory_params channel options) \<and>
              ''limit'' \<notin> fst ` set (getConversationReplies_params channel ts options))"
  proof
    assume v: "obj_get options ''limit'' = v"
    show "if truthy v
         then obj_get (getThreadsView_params now options) ''limit'' = JStr (js_String v) \<and>
              obj_get (getConversationHistory_params channel options) ''limit'' = v \<and>
              obj_get (getConversationReplies_params channel ts options) ''limit'' = v \<and>
              map_of (formBody b (getConversationHistory_params channel options)) ''limit'' =
                Some (js_String v) \<and>
              map_of (formBody b (getConversationReplies_params channel ts options)) ''limit'' =
                Some (js_String v)
         else ''limit'' \<notin> fst ` set (getThreadsView_params now options) \<and>
              ''limit'' \<notin> fst ` set (getConversationHistory_params channel options) \<and>
              ''limit'' \<notin> fst ` set (getConversationReplies_params channel ts options)"
    proof (cases "truthy v")
      case True
      then have hk: "''limit'' \<in> fst ` set (getConversationHistory_params channel options)"
        and rk: "''limit'' \<in> fst ` set (getConversationReplies_params channel ts options)"
        using v by (simp_all add: history_limit replies_limit)
      have h: "obj_get (getConversationHistory_params channel options) ''limit'' = v"
        and r: "obj_get (getConversationReplies_params channel ts options) ''limit'' = v"
        and th: "obj_get (getThreadsView_params now options) ''limit'' = JStr (js_String v)"
        using True v by (simp_all add: history_limit replies_limit threads_limit)
      from th h r formBody_value [OF distinct_history_params hk, of b]
        formBody_value [OF distinct_replies_params rk, of b]
      show ?thesis
        using True by (simp only: if_True h r simp_thms)
    next
      case False
      then show ?thesis
        using v by (simp add: history_limit replies_limit threads_limit)
    qed
  qed
  from t len list count page limit
  show "truthy v = (v \<noteq> JNum 0 \<and> v \<noteq> JNaN) \<and>
     obj_get (getUploadUrl_params filename v) ''length'' = JStr (js_String v) \<and>
     obj_get (listConversations_params options) ''limit'' = obj_get options ''limit'' \<and>
     (obj_get options ''count'' = v \<longrightarrow>
        (if truthy v
         then obj_get (searchAll_params query options) ''count'' = JStr (js_String v)
         else ''count'' \<notin> fst ` set (searchAll_params query options))) \<and>
     (obj_get options ''page'' = v \<longrightarrow>
        (if truthy v
         then obj_get (searchAll_params query options) ''page'' = JStr (js_String v)
         else ''page'' \<notin> fst ` set (searchAll_params query options))) \<and>
     (obj_get options ''limit'' = v \<longrightarrow>
        (if truthy v
         then obj_get (getThreadsView_params now options) ''limit'' = JStr (js_String v) \<and>
              obj_get (getConversationHistory_params channel options) ''limit'' = v \<and>
              obj_get (getConversationReplies_params channel ts options) ''limit'' = v \<and>
              map_of (formBody b (getConversationHistory_params channel options)) ''limit'' =
                Some (js_String v) \<and>
              map_of (formBody b (getConversationReplies_params channel ts options)) ''limit'' =
                Some (js_String v)
         else ''limit'' \<notin> fst ` set (getThreadsView_params now options) \<and>
              ''limit'' \<notin> fst ` set (getConversationHistory_params channel options) \<and>
              ''limit'' \<notin> fst ` set (getConversationReplies_params channel ts options)))"
    by (intro conjI)
qed

theorem numeric_options_shaping_witness:
  "(is_number (JNum 20) \<and>
    obj_get [(''count'', JNum 20), (''page'', JNum 20), (''limit'', JNum 20)] ''count'' = JNum 20 \<and>
    obj_get [(''count'', JNum 20), (''page'', JNum 20), (''limit'', JNum 20)] ''page'' = JNum 20 \<and>
    obj_get [(''count'', JNum 20), (''page'', JNum 20), (''limit'', JNum 20)] ''limit'' = JNum 20) \<and>
   obj_get (searchAll_params (JStr ''q'')
      [(''count'', JNum 20), (''page'', JNum 20), (''limit'', JNum 20)]) ''count'' = JStr ''20'' \<and>
   obj_get (searchAll_params (JStr ''q'')
      [(''count'', JNum 20), (''page'', JNum 20), (''limit'', JNum 20)]) ''page'' = JStr ''20'' \<and>
   obj_get (getThreadsView_params (JNumText ''1700000000.123'')
      [(''count'', JNum 20), (''page'', JNum 20), (''limit'', JNum 20)]) ''limit'' = JStr ''20'' \<and>
   obj_get (getConversationHistory_params (JStr ''C1'')
      [(''count'', JNum 20), (''page'', JNum 20), (''limit'', JNum 20)]) ''limit'' = JNum 20 \<and>
   map_of (formBody sample_browser (getConversationHistory_params (JStr ''C1'')
      [(''count'', JNum 20), (''page'', JNum 20), (''limit'', JNum 20)])) ''limit'' = Some ''20'' \<and>
   (is_number JNaN \<and>
    obj_get [(''count'', JNaN), (''limit'', JNaN)] ''count'' = JNaN \<and>
    obj_get [(''count'', JNaN), (''limit'', JNaN)] ''limit'' = JNaN) \<and>
   ''limit'' \<notin> fst ` set (getConversationHistory_params (JStr ''C1'')
      [(''count'', JNaN), (''limit'', JNaN)]) \<and>
   ''limit'' \<notin> fst ` set (getThreadsView_params (JNumText ''1700000000.123'')
      [(''count'', JNaN), (''limit'', JNaN)]) \<and>
   ''count'' \<notin> fst ` set (searchAll_params (JStr ''q'') [(''count'', JNaN), (''limit'', JNaN)]) \<and>
   (is_number (JNum 0) \<and> obj_get [(''limit'', JNum 0)] ''limit'' = JNum 0) \<and>
   ''limit'' \<notin> fst ` set (getConversationReplies_params (JStr ''C1'') (JStr ''1.0'')
      [(''limit'', JNum 0)]) \<and>
   obj_get (getUploadUrl_params (JStr ''a.txt'') (JNum 0)) ''length'' = JStr ''0''"
  using numeric_options_shaping
      [of "JNum 20" "JStr ''a.txt''"
          "[(''count'', JNum 20), (''page'', JNum 20), (''limit'', JNum 20)]"
          "JStr ''q''" "JNumText ''1700000000.123''" "JStr ''C1''" "JStr ''1.0''" sample_browser]
    numeric_options_shaping
      [of JNaN "JStr ''a.txt''" "[(''count'', JNaN), (''limit'', JNaN)]"
          "JStr ''q''" "JNumText ''1700000000.123''" "JStr ''C1''" "JStr ''1.0''" sample_browser]
    numeric_options_shaping
      [of "JNum 0" "JStr ''a.txt''" "[(''limit'', JNum 0)]"
          "JStr ''q''" "JNumText ''1700000000.123''" "JStr ''C1''" "JStr ''1.0''" sample_browser]
  by (simp add: obj_get_def number_text_def digits.simps [of 20] digits.simps [of 2]
      digits.simps [of 0] digit_def)

text \<open>
  C7, as stated: every required parameter appears verbatim under its key. Two do not:
  \<^verbatim>\<open>length\<close> of \<^verbatim>\<open>getUploadUrl\<close> appears as a string, \<^verbatim>\<open>files\<close> of \<^verbatim>\<open>completeUpload\<close> as
  JSON text.
\<close>

theorem required_params_counterexample:
  \<open>obj_get (getUploadUrl_params (JStr ''a.txt'') (JNum 5)) ''length'' = JStr ''5'' \<and>
   obj_get (getUploadUrl_params (JStr ''a.txt'') (JNum 5)) ''length'' \<noteq> JNum 5 \<and>
   obj_get (completeUpload_params [JObj [(''id'', JStr ''F1'')]] []) ''files''
     = JStr ''[{"id":"F1"}]'' \<and>
   obj_get (completeUpload_params [JObj [(''id'', JStr ''F1'')]] []) ''files''
     \<noteq> JArr [JObj [(''id'', JStr ''F1'')]]\<close>
  by code_simp


text \<open>
  C7, amended: the required parameters of an operation always appear under their own keys
  in the mapping handed to \<^verbatim>\<open>request\<close>, whatever the options and whichever the transport:
  \<^verbatim>\<open>channel\<close>, \<^verbatim>\<open>ts\<close>, \<^verbatim>\<open>query\<close>, \<^verbatim>\<open>filename\<close>, \<^verbatim>\<open>text\<close> and \<^verbatim>\<open>user\<close> verbatim, \<^verbatim>\<open>length\<close>
  in its \<^verbatim>\<open>String\<close> form, and \<^verbatim>\<open>files\<close> as its \<^verbatim>\<open>JSON.stringify\<close> text.
\<close>

theorem required_params_in_mapping:
  "obj_get (markConversationRead_params channel ts) ''channel'' = channel \<and>
   obj_get (markConversationRead_params channel ts) ''ts'' = ts \<and>
   obj_get (searchAll_params query options) ''query'' = query \<and>
   obj_get (getUploadUrl_params filename len) ''filename'' = filename \<and>
   obj_get (getUploadUrl_params filename len) ''length'' = JStr (js_String len) \<and>
   obj_get (completeUpload_params files options) ''files'' = JStr (JSON_stringify (JArr files)) \<and>
   obj_get (getConversationHistory_params channel options) ''channel'' = channel \<and>
   obj_get (getConversationReplies_params channel ts options) ''channel'' = channel \<and>
   obj_get (getConversationReplies_params channel ts options) ''ts'' = ts \<and>
   obj_get (postMessage_params channel text options) ''channel'' = channel \<and>
   obj_get (postMessage_params channel text options) ''text'' = text \<and>
   obj_get (getUserInfo_params userId) ''user'' = userId \<and>
   snd (markConversationRead c rt channel ts tr) =
     tr @ [Request ''conversations.mark'' (markConversationRead_params channel ts)
             (fst (markConversationRead c rt channel ts tr))] \<and>
   snd (searchAll c rt query options tr) =
     tr @ [Request ''search.all'' (searchAll_params query options)
             (fst (searchAll c rt query options tr))] \<and>
   snd (getUploadUrl c rt filename len tr) =
     tr @ [Request ''files.getUploadURLExternal'' (getUploadUrl_params filename len)
             (fst (getUploadUrl c rt filename len tr))] \<and>
   snd (completeUpload c rt files options tr) =
     tr @ [Request ''files.completeUploadExternal'' (completeUpload_params files options)
             (fst (completeUpload c rt files options tr))]"
proof -
  have params:
    "obj_get (markConversationRead_params channel ts) ''channel'' = channel"
    "obj_get (markConversationRead_params channel ts) ''ts'' = ts"
    "obj_get (searchAll_params query options) ''query'' = query"
    "obj_get (getUploadUrl_params filename len) ''filename'' = filename"
    "obj_get (getUploadUrl_params filename len) ''length'' = JStr (js_String len)"
    "obj_get (completeUpload_params files options) ''files'' = JStr (JSON_stringify (JArr files))"
    "obj_get (getConversationHistory_params channel options) ''channel'' = channel"
    "obj_get (getConversationReplies_params channel ts options) ''channel'' = channel"
    "obj_get (getConversationReplies_params channel ts options) ''ts'' = ts"
    "obj_get (postMessage_params channel text options) ''channel'' = channel"
    "obj_get (postMessage_params channel text options) ''text'' = text"
    "obj_get (getUserInfo_params userId) ''user'' = userId"
    by (simp_all add: markConversationRead_params_def searchAll_params_def getUploadUrl_params_def
        completeUpload_params_def getConversationHistory_params_def
        getConversationReplies_params_def postMessage_params_def getUserInfo_params_def
        obj_get_copy)
      (simp_all add: obj_get_def)
  have dispatch:
    "snd (markConversationRead c rt channel ts tr) =
       tr @ [Request ''conversations.mark'' (markConversationRead_params channel ts)
               (fst (markConversationRead c rt channel ts tr))]"
    "snd (searchAll c rt query options tr) =
       tr @ [Request ''search.all'' (searchAll_params query options)
               (fst (searchAll c rt query options tr))]"
    "snd (getUploadUrl c rt filename len tr) =
       tr @ [Request ''files.getUploadURLExternal'' (getUploadUrl_params filename len)
               (fst (getUploadUrl c rt filename len tr))]"
    "snd (completeUpload c rt files options tr) =
       tr @ [Request ''files.completeUploadExternal'' (completeUpload_params files options)
               (fst (completeUpload c rt files options tr))]"
    unfolding markConversationRead_def searchAll_def getUploadUrl_def completeUpload_def
    by (rule request_trace)+
  from params dispatch show ?thesis
    by (intro conjI)
qed

section \<open>What an operation adds to the trace\<close>

lemma requests_to_append:
  "requests_to m (a @ b) = requests_to m a @ requests_to m b"
  by (induction m a rule: requests_to.induct) auto

lemma request_run:
  "request c rt method params tr = (r, tr1) \<Longrightarrow> tr1 = tr @ [Request method params r]"
  by (auto simp: request_def Let_def)

lemma report_append: "report options step tr = tr @ report options step []"
  by (simp add: report_def)

lemma report_quiet:
  "requests_to method (report options step []) = []"
  "\<not> list_ex failed_step (report options step [])"
  by (simp_all add: report_def)

lemma getUploadUrl_run:
  "getUploadUrl c rt filename len tr = (r, tr1) \<Longrightarrow>
   tr1 = tr @ [Request ''files.getUploadURLExternal'' (getUploadUrl_params filename len) r]"
  by (simp add: getUploadUrl_def request_run)

lemma uploadToUrl_run:
  "uploadToUrl rt url content filename tr = (u, tr1) \<Longrightarrow>
   tr1 = tr @ [Transfer url content filename u]"
  by (auto simp: uploadToUrl_def Let_def)

section \<open>Batch user resolution\<close>

lemma getUsersInfo_loop_run:
  "\<exists>outcomes tr'.
     getUsersInfo_loop c rt userIds users tr = (users @ List.map_filter resolved_user outcomes, tr') \<and>
     length outcomes = length userIds \<and>
     requests_to ''users.info'' tr' =
       requests_to ''users.info'' tr @ zip (map getUserInfo_params userIds) outcomes"
proof (induction userIds arbitrary: users tr)
  case Nil
  show ?case by (simp add: List.map_filter_simps)
next
  case (Cons userId rest)
  obtain r tr1 where run: "getUserInfo c rt userId tr = (r, tr1)"
    by (cases "getUserInfo c rt userId tr")
  then have tr1: "tr1 = tr @ [Request ''users.info'' (getUserInfo_params userId) r]"
    by (auto simp: getUserInfo_def dest: request_run)
  define users1 where "users1 = users @ List.map_filter resolved_user [r]"
  define tr2 where
    "tr2 = (case r of Inl _ \<Rightarrow> tr1 @ [ConsoleError (''Failed to fetch user '' @ js_String userId)]
            | Inr _ \<Rightarrow> tr1)"
  have step: "getUsersInfo_loop c rt (userId # rest) users tr = getUsersInfo_loop c rt rest users1 tr2"
    using run by (cases r) (auto simp: users1_def tr2_def List.map_filter_simps)
  have reqs: "requests_to ''users.info'' tr2 =
      requests_to ''users.info'' tr @ [(getUserInfo_params userId, r)]"
    by (cases r) (simp_all add: tr2_def tr1 requests_to_append)
  from Cons.IH [of users1 tr2] obtain outcomes tr' where
    ih: "getUsersInfo_loop c rt rest users1 tr2 =
           (users1 @ List.map_filter resolved_user outcomes, tr')"
      "length outcomes = length rest"
      "requests_to ''users.info'' tr' =
         requests_to ''users.info'' tr2 @ zip (map getUserInfo_params rest) outcomes"
    by blast
  have "getUsersInfo_loop c rt (userId # rest) users tr =
          (users @ List.map_filter resolved_user (r # outcomes), tr')"
    using step ih(1) by (simp add: users1_def List.map_filter_simps split: option.splits)
  moreover have "length (r # outcomes) = length (userId # rest)"
    using ih(2) by simp
  moreover have "requests_to ''users.info'' tr' =
      requests_to ''users.info'' tr @ zip (map getUserInfo_params (userId # rest)) (r # outcomes)"
    using ih(3) reqs by simp
  ultimately show ?case by blast
qed

lemma length_map_filter:
  "length (List.map_filter f xs) + length (filter (\<lambda>x. f x = None) xs) = length xs"
  by (induction xs) (auto simp: List.map_filter_simps split: option.splits)

text \<open>
  C4: \<^verbatim>\<open>getUsersInfo\<close> makes one lookup per identifier, in order, and never throws. With
  \<open>N\<close> identifiers of which \<open>K\<close> lookups fail (the lookup throws, or its response is not
  \<^verbatim>\<open>ok\<close> or carries no user), the envelope holds exactly \<open>N - K\<close> users: those of the
  lookups that did not fail, the failed ones left out.
\<close>

theorem getUsersInfo_partial_success:
  "\<exists>users outcomes tr'.
     getUsersInfo c rt userIds tr =
       (Inr [(''ok'', JBool True), (''users'', JArr users)], tr') \<and>
     requests_to ''users.info'' tr' =
       requests_to ''users.info'' tr @ zip (map getUserInfo_params userIds) outcomes \<and>
     length outcomes = length userIds \<and>
     users = List.map_filter resolved_user outcomes \<and>
     length users = length userIds - length (filter lookup_failed outcomes)"
proof -
  from getUsersInfo_loop_run [of c rt userIds "[]" tr] obtain outcomes tr' where
    run: "getUsersInfo_loop c rt userIds [] tr = (List.map_filter resolved_user outcomes, tr')"
      "length outcomes = length userIds"
      "requests_to ''users.info'' tr' =
         requests_to ''users.info'' tr @ zip (map getUserInfo_params userIds) outcomes"
    by auto
  have "length (List.map_filter resolved_user outcomes) =
      length userIds - length (filter lookup_failed outcomes)"
    using length_map_filter [of resolved_user outcomes] run(2)
    by (simp add: lookup_failed_def [abs_def])
  moreover have "getUsersInfo c rt userIds tr =
      (Inr [(''ok'', JBool True), (''users'', JArr (List.map_filter resolved_user outcomes))], tr')"
    using run(1) by (simp add: getUsersInfo_def)
  ultimately show ?thesis
    using run(2,3) by blast
qed

theorem getUsersInfo_partial_success_witness:
  "fst (getUsersInfo standard_client lookup_rt [JStr ''U1'', JStr ''U2'', JStr ''U3''] []) =
     Inr [(''ok'', JBool True), (''users'', JArr [JObj [(''id'', JStr ''U1'')]])] \<and>
   map (lookup_failed \<circ> snd)
     (requests_to ''users.info''
        (snd (getUsersInfo standard_client lookup_rt [JStr ''U1'', JStr ''U2'', JStr ''U3''] []))) =
     [False, True, True]"
proof -
  have run: "getUsersInfo standard_client lookup_rt [JStr ''U1'', JStr ''U2'', JStr ''U3''] [] =
      (Inr [(''ok'', JBool True), (''users'', JArr [JObj [(''id'', JStr ''U1'')]])],
       [Request ''users.info'' [(''user'', JStr ''U1'')]
          (Inr [(''ok'', JBool True), (''user'', JObj [(''id'', JStr ''U1'')])]),
        Request ''users.info'' [(''user'', JStr ''U2'')]
          (Inl (Error ''Slack API error: user_not_found'')),
        ConsoleError ''Failed to fetch user U2'',
        Request ''users.info'' [(''user'', JStr ''U3'')] (Inr [(''ok'', JBool True)])])"
    by code_simp
  show ?thesis
    using getUsersInfo_partial_success
      [of standard_client lookup_rt "[JStr ''U1'', JStr ''U2'', JStr ''U3'']" "[]"]
    by (simp add: run lookup_failed_def obj_get_def)
qed

text \<open>
  C9: the envelope of \<^verbatim>\<open>getUsersInfo\<close> always has \<^verbatim>\<open>ok: true\<close>; its users are the users of
  the lookups that did not fail, in the order of their identifiers in the input; when
  every lookup fails the list is empty.
\<close>

theorem getUsersInfo_envelope_and_order:
  "\<exists>outcomes tr'.
     getUsersInfo c rt userIds tr =
       (Inr [(''ok'', JBool True),
             (''users'', JArr (map (the \<circ> resolved_user \<circ> snd)
                (filter (\<lambda>(userId, r). \<not> lookup_failed r) (zip userIds outcomes))))], tr') \<and>
     length outcomes = length userIds \<and>
     requests_to ''users.info'' tr' =
       requests_to ''users.info'' tr @ zip (map getUserInfo_params userIds) outcomes \<and>
     (list_all lookup_failed outcomes \<longrightarrow>
        getUsersInfo c rt userIds tr = (Inr [(''ok'', JBool True), (''users'', JArr [])], tr'))"
proof -
  from getUsersInfo_loop_run [of c rt userIds "[]" tr] obtain outcomes tr' where
    run: "getUsersInfo_loop c rt userIds [] tr = (List.map_filter resolved_user outcomes, tr')"
      "length outcomes = length userIds"
      "requests_to ''users.info'' tr' =
         requests_to ''users.info'' tr @ zip (map getUserInfo_params userIds) outcomes"
    by auto
  have order: "length outcomes = length userIds \<Longrightarrow>
      List.map_filter resolved_user outcomes =
      map (the \<circ> resolved_user \<circ> snd)
        (filter (\<lambda>(userId, r). \<not> lookup_failed r) (zip userIds outcomes))" for userIds :: "jsval list"
    by (induction userIds outcomes rule: list_induct2')
       (auto simp: List.map_filter_simps lookup_failed_def split: option.splits)
  have none: "list_all lookup_failed outcomes \<Longrightarrow> List.map_filter resolved_user outcomes = []"
    by (induction outcomes) (auto simp: List.map_filter_simps lookup_failed_def)
  have result: "getUsersInfo c rt userIds tr =
      (Inr [(''ok'', JBool True),
            (''users'', JArr (map (the \<circ> resolved_user \<circ> snd)
               (filter (\<lambda>(userId, r). \<not> lookup_failed r) (zip userIds outcomes))))], tr')"
    using run(1) order [OF run(2)] by (simp add: getUsersInfo_def)
  have empty: "list_all lookup_failed outcomes \<longrightarrow>
      getUsersInfo c rt userIds tr = (Inr [(''ok'', JBool True), (''users'', JArr [])], tr')"
    using run(1) none by (simp add: getUsersInfo_def)
  from result run(2,3) empty show ?thesis
    by blast
qed

theorem getUsersInfo_envelope_and_order_witness:
  "list_all lookup_failed
     [Inl (Error ''Slack API error: user_not_found''), Inr [(''ok'', JBool True)]] \<and>
   fst (getUsersInfo standard_client lookup_rt [JStr ''U2'', JStr ''U3''] []) =
     Inr [(''ok'', JBool True), (''users'', JArr [])]"
proof -
  let ?e = "Inl (Error ''Slack API error: user_not_found'') :: exn + jsobj"
  let ?r = "Inr [(''ok'', JBool True)] :: exn + jsobj"
  have run: "getUsersInfo standard_client lookup_rt [JStr ''U2'', JStr ''U3''] [] =
      (Inr [(''ok'', JBool True), (''users'', JArr [])],
       [Request ''users.info'' [(''user'', JStr ''U2'')] ?e,
        ConsoleError ''Failed to fetch user U2'',
        Request ''users.info'' [(''user'', JStr ''U3'')] ?r])"
    by code_simp
  from getUsersInfo_envelope_and_order
      [of standard_client lookup_rt "[JStr ''U2'', JStr ''U3'']" "[]"]
  obtain outcomes tr' where
    res: "getUsersInfo standard_client lookup_rt [JStr ''U2'', JStr ''U3''] [] =
       (Inr [(''ok'', JBool True),
             (''users'', JArr (map (the \<circ> resolved_user \<circ> snd)
                (filter (\<lambda>(userId, r). \<not> lookup_failed r)
                   (zip [JStr ''U2'', JStr ''U3''] outcomes))))], tr')"
    and len: "length outcomes = length [JStr ''U2'', JStr ''U3'']"
    and reqs: "requests_to ''users.info'' tr' =
        requests_to ''users.info'' [] @
          zip (map getUserInfo_params [JStr ''U2'', JStr ''U3'']) outcomes"
    and empty: "list_all lookup_failed outcomes \<longrightarrow>
        getUsersInfo standard_client lookup_rt [JStr ''U2'', JStr ''U3''] [] =
          (Inr [(''ok'', JBool True), (''users'', JArr [])], tr')"
    by blast
  from len obtain a b where ab: "outcomes = [a, b]"
    by (auto simp: length_Suc_conv)
  from res have "tr' = snd (getUsersInfo standard_client lookup_rt [JStr ''U2'', JStr ''U3''] [])"
    by simp
  with reqs have "outcomes = [?e, ?r]"
    by (simp add: run ab getUserInfo_params_def)
  moreover have failed: "list_all lookup_failed [?e, ?r]"
    by (simp add: lookup_failed_def obj_get_def)
  ultimately show ?thesis
    using empty by simp
qed

section \<open>The upload loop\<close>

lemma uploadFiles_loop_done:
  "\<not> i < length filePaths \<Longrightarrow>
   uploadFiles_loop c rt filePaths options i acc tr = (Inr acc, tr)"
  by (simp add: uploadFiles_loop.simps)

text \<open>One round of the loop, event by event.\<close>

lemma uploadFiles_loop_round:
  assumes "i < length filePaths"
  shows
    "(\<exists>err. readFile rt tr (filePaths ! i) = Inl err \<and>
        uploadFiles_loop c rt filePaths options i acc tr =
          (Inl err, tr @ [FileRead (filePaths ! i) (Inl err)])) \<or>
     (\<exists>content quiet params.
        quiet = FileRead (filePaths ! i) (Inr content) #
                report options
                  (''Uploading file '' @ decimal (i + 1) @ ''/'' @
                   decimal (length filePaths) @ '': '' @ filename_of (filePaths ! i)) [] \<and>
        obj_get params ''filename'' = JStr (filename_of (filePaths ! i)) \<and>
        ((\<exists>err. uploadFiles_loop c rt filePaths options i acc tr =
             (Inl err, tr @ quiet @ [Request ''files.getUploadURLExternal'' params (Inl err)])) \<or>
         (\<exists>slot url. 
            (\<exists>err. uploadFiles_loop c rt filePaths options i acc tr =
               (Inl err, tr @ quiet @
                  [Request ''files.getUploadURLExternal'' params (Inr slot),
                   Transfer url content (filename_of (filePaths ! i)) (Inl err)])) \<or>
            uploadFiles_loop c rt filePaths options i acc tr =
              uploadFiles_loop c rt filePaths options (i + 1)
                (acc @ [make_entry (obj_get slot ''file_id'') (title_at options i)])
                (tr @ quiet @
                  [Request ''files.getUploadURLExternal'' params (Inr slot),
                   Transfer url content (filename_of (filePaths ! i)) (Inr ())]))))"
proof (cases "readFile rt tr (filePaths ! i)")
  case (Inl err)
  then show ?thesis
    using assms by (subst uploadFiles_loop.simps) simp
next
  case (Inr content)
  define filename where "filename = filename_of (filePaths ! i)"
  define quiet where
    "quiet = FileRead (filePaths ! i) (Inr content) #
       report options
         (''Uploading file '' @ decimal (i + 1) @ ''/'' @
          decimal (length filePaths) @ '': '' @ filename) []"
  define tr2 where "tr2 = tr @ quiet"
  have tr2: "report options
         (''Uploading file '' @ decimal (i + 1) @ ''/'' @
          decimal (length filePaths) @ '': '' @ filename)
         (tr @ [FileRead (filePaths ! i) (Inr content)]) = tr2"
    by (simp add: tr2_def quiet_def report_def)
  define params where
    "params = getUploadUrl_params (JStr filename) (byteLength content)"
  have pf: "obj_get params ''filename'' = JStr filename"
    by (simp add: params_def getUploadUrl_params_def obj_get_def)
  obtain r tr3 where slot: "getUploadUrl c rt (JStr filename) (byteLength content) tr2 = (r, tr3)"
    by (cases "getUploadUrl c rt (JStr filename) (byteLength content) tr2")
  have tr3: "tr3 = tr2 @ [Request ''files.getUploadURLExternal'' params r]"
    using getUploadUrl_run [OF slot] by (simp add: params_def)
  have unfold: "uploadFiles_loop c rt filePaths options i acc tr =
      (case r of
         Inl err \<Rightarrow> (Inl err, tr3)
       | Inr slot \<Rightarrow>
           (case uploadToUrl rt (obj_get slot ''upload_url'') content filename tr3 of
              (Inl err, tr4) \<Rightarrow> (Inl err, tr4)
            | (Inr _, tr4) \<Rightarrow>
                uploadFiles_loop c rt filePaths options (i + 1)
                  (acc @ [make_entry (obj_get slot ''file_id'') (title_at options i)]) tr4))"
    using assms Inr slot tr2 unfolding filename_def
    by (subst uploadFiles_loop.simps) (simp add: Let_def)
  show ?thesis
  proof (cases r)
    case (Inl err)
    with unfold tr3 have "uploadFiles_loop c rt filePaths options i acc tr =
        (Inl err, tr @ quiet @ [Request ''files.getUploadURLExternal'' params (Inl err)])"
      by (simp add: tr2_def)
    with pf show ?thesis
      unfolding quiet_def filename_def by blast
  next
    case (Inr slot)
    define url where "url = obj_get slot ''upload_url''"
    obtain u tr4 where up: "uploadToUrl rt url content filename tr3 = (u, tr4)"
      by (cases "uploadToUrl rt url content filename tr3")
    have tr4: "tr4 = tr @ quiet @ [Request ''files.getUploadURLExternal'' params (Inr slot),
         Transfer url content filename u]"
      using uploadToUrl_run [OF up] tr3 Inr by (simp add: tr2_def)
    show ?thesis
    proof (cases u)
      case (Inl err)
      with unfold Inr up tr4 have "uploadFiles_loop c rt filePaths options i acc tr =
          (Inl err, tr @ quiet @
                  [Request ''files.getUploadURLExternal'' params (Inr slot),
                   Transfer url content filename (Inl err)])"
        by (simp add: url_def)
      with pf show ?thesis
        unfolding quiet_def filename_def by blast
    next
      case (Inr unit)
      with unfold \<open>r = Inr slot\<close> up tr4 have "uploadFiles_loop c rt filePaths options i acc tr =
          uploadFiles_loop c rt filePaths options (i + 1)
                (acc @ [make_entry (obj_get slot ''file_id'') (title_at options i)])
                (tr @ quiet @
                  [Request ''files.getUploadURLExternal'' params (Inr slot),
                   Transfer url content filename (Inr ())])"
        by (simp add: url_def)
      with pf show ?thesis
        unfolding quiet_def filename_def by blast
    qed
  qed
qed


lemma uploadFiles_loop_run:
  assumes "uploadFiles_loop c rt filePaths options i acc tr = (res, tr')"
  shows "\<exists>new. tr' = tr @ new \<and>
     requests_to ''files.completeUploadExternal'' new = [] \<and>
     (case res of
        Inl err \<Rightarrow>
          (\<exists>done ev. new = done @ [ev] \<and> \<not> list_ex failed_step done \<and>
             failed_step ev \<and> failure_of ev = Some err)
      | Inr entries \<Rightarrow>
          \<not> list_ex failed_step new \<and>
          (\<exists>slots.
             map snd (requests_to ''files.getUploadURLExternal'' new) = map Inr slots \<and>
             map (\<lambda>p. obj_get (fst p) ''filename'')
                 (requests_to ''files.getUploadURLExternal'' new) =
               map (\<lambda>k. JStr (filename_of (filePaths ! k))) [i..<length filePaths] \<and>
             entries = acc @ map2 (\<lambda>slot k. make_entry (obj_get slot ''file_id'')
                                      (title_at options k)) slots [i..<length filePaths]))"
  using assms
proof (induction "length filePaths - i" arbitrary: i acc tr)
  case 0
  then have "\<not> i < length filePaths" by simp
  with "0.prems" have "res = Inr acc" "tr' = tr"
    by (simp_all add: uploadFiles_loop_done)
  moreover have "[i..<length filePaths] = []"
    using \<open>\<not> i < length filePaths\<close> by simp
  ultimately show ?case by simp
next
  case (Suc n)
  then have lt: "i < length filePaths" by simp
  from uploadFiles_loop_round [OF lt, of rt tr c options acc] show ?case
  proof (elim disjE exE conjE, goal_cases)
    case (1 err)
    with Suc.prems have "res = Inl err" "tr' = tr @ [FileRead (filePaths ! i) (Inl err)]"
      by simp_all
    then show ?case
      by (simp add: exI [of _ "[]"])
  next
    case (2 content quiet params err)
    have quiet: "requests_to m quiet = []" "\<not> list_ex failed_step quiet" for m
      using 2(1) by (simp_all add: report_quiet)
    from 2 Suc.prems have res: "res = Inl err"
      and tr': "tr' = tr @ (quiet @ [Request ''files.getUploadURLExternal'' params (Inl err)])"
      by simp_all
    have "\<exists>done ev. quiet @ [Request ''files.getUploadURLExternal'' params (Inl err)] = done @ [ev] \<and>
        \<not> list_ex failed_step done \<and> failed_step ev \<and> failure_of ev = Some err"
      using quiet(2) by (intro exI [of _ quiet] exI [of _ "Request ''files.getUploadURLExternal'' params (Inl err)"]) simp
    then show ?case
      using res tr' quiet(1) by (simp add: requests_to_append)
  next
    case (3 content quiet params slot url err)
    have quiet: "requests_to m quiet = []" "\<not> list_ex failed_step quiet" for m
      using 3(1) by (simp_all add: report_quiet)
    let ?done = "quiet @ [Request ''files.getUploadURLExternal'' params (Inr slot)]"
    let ?ev = "Transfer url content (filename_of (filePaths ! i)) (Inl err)"
    from 3 Suc.prems have res: "res = Inl err" and tr': "tr' = tr @ (?done @ [?ev])"
      by simp_all
    have "\<exists>done ev. ?done @ [?ev] = done @ [ev] \<and>
        \<not> list_ex failed_step done \<and> failed_step ev \<and> failure_of ev = Some err"
      using quiet(2) by (intro exI [of _ ?done] exI [of _ ?ev]) simp
    moreover have "requests_to ''files.completeUploadExternal'' (?done @ [?ev]) = []"
      using quiet(1) by (simp add: requests_to_append)
    ultimately show ?case
      using res tr' by (intro exI [of _ "?done @ [?ev]"]) simp
  next
    case (4 content quiet params slot url)
    have quiet: "requests_to m quiet = []" "\<not> list_ex failed_step quiet" for m
      using 4(1) by (simp_all add: report_quiet)
    let ?round = "quiet @ [Request ''files.getUploadURLExternal'' params (Inr slot),
                   Transfer url content (filename_of (filePaths ! i)) (Inr ())]"
    let ?acc = "acc @ [make_entry (obj_get slot ''file_id'') (title_at options i)]"
    have round:
      "requests_to ''files.completeUploadExternal'' ?round = []"
      "requests_to ''files.getUploadURLExternal'' ?round = [(params, Inr slot)]"
      "\<not> list_ex failed_step ?round"
      using quiet by (simp_all add: requests_to_append)
    have n: "n = length filePaths - (i + 1)"
      using Suc.hyps(2) by simp
    have "uploadFiles_loop c rt filePaths options (i + 1) ?acc (tr @ ?round) = (res, tr')"
      using 4(3) Suc.prems by simp
    from Suc.hyps(1) [OF n this] obtain new where
      new: "tr' = (tr @ ?round) @ new"
        "requests_to ''files.completeUploadExternal'' new = []"
      and post: "case res of
        Inl err \<Rightarrow>
          (\<exists>done ev. new = done @ [ev] \<and> \<not> list_ex failed_step done \<and>
             failed_step ev \<and> failure_of ev = Some err)
      | Inr entries \<Rightarrow>
          \<not> list_ex failed_step new \<and>
          (\<exists>slots.
             map snd (requests_to ''files.getUploadURLExternal'' new) = map Inr slots \<and>
             map (\<lambda>p. obj_get (fst p) ''filename'')
                 (requests_to ''files.getUploadURLExternal'' new) =
               map (\<lambda>k. JStr (filename_of (filePaths ! k))) [i + 1..<length filePaths] \<and>
             entries = ?acc @ map2 (\<lambda>slot k. make_entry (obj_get slot ''file_id'')
                                      (title_at options k)) slots [i + 1..<length filePaths])"
      by blast
    have upt: "[i..<length filePaths] = i # [i + 1..<length filePaths]"
      using lt by (simp add: upt_conv_Cons)
    have tr': "tr' = tr @ (?round @ new)"
      using new(1) by simp
    have fin: "requests_to ''files.completeUploadExternal'' (?round @ new) = []"
      using round(1) new(2) by (simp only: requests_to_append) simp
    have "case res of
        Inl err \<Rightarrow>
          (\<exists>done ev. ?round @ new = done @ [ev] \<and> \<not> list_ex failed_step done \<and>
             failed_step ev \<and> failure_of ev = Some err)
      | Inr entries \<Rightarrow>
          \<not> list_ex failed_step (?round @ new) \<and>
          (\<exists>slots.
             map snd (requests_to ''files.getUploadURLExternal'' (?round @ new)) = map Inr slots \<and>
             map (\<lambda>p. obj_get (fst p) ''filename'')
                 (requests_to ''files.getUploadURLExternal'' (?round @ new)) =
               map (\<lambda>k. JStr (filename_of (filePaths ! k))) [i..<length filePaths] \<and>
             entries = acc @ map2 (\<lambda>slot k. make_entry (obj_get slot ''file_id'')
                                      (title_at options k)) slots [i..<length filePaths])"
    proof (cases res)
      case (Inl err)
      with post obtain "done" ev where
        d: "new = done @ [ev]" "\<not> list_ex failed_step done" "failed_step ev"
          "failure_of ev = Some err"
        by auto
      have "?round @ new = (?round @ done) @ [ev]"
        using d(1) by simp
      moreover have "\<not> list_ex failed_step (?round @ done)"
        using round(3) d(2) by simp
      ultimately show ?thesis
        using Inl d(3,4) by (simp only: sum.case) blast
    next
      case (Inr entries)
      with post obtain slots where
        ok: "\<not> list_ex failed_step new"
        and s: "map snd (requests_to ''files.getUploadURLExternal'' new) = map Inr slots"
          "map (\<lambda>p. obj_get (fst p) ''filename'')
                 (requests_to ''files.getUploadURLExternal'' new) =
               map (\<lambda>k. JStr (filename_of (filePaths ! k))) [i + 1..<length filePaths]"
          "entries = ?acc @ map2 (\<lambda>slot k. make_entry (obj_get slot ''file_id'')
                                      (title_at options k)) slots [i + 1..<length filePaths]"
        by auto
      have a: "\<not> list_ex failed_step (?round @ new)"
        using round(3) ok by simp
      have b: "map snd (requests_to ''files.getUploadURLExternal'' (?round @ new)) =
          map Inr (slot # slots)"
        using round(2) s(1) by (simp only: requests_to_append) simp
      have c: "map (\<lambda>p. obj_get (fst p) ''filename'')
                 (requests_to ''files.getUploadURLExternal'' (?round @ new)) =
               map (\<lambda>k. JStr (filename_of (filePaths ! k))) [i..<length filePaths]"
        using round(2) s(2) 4(2) by (simp only: requests_to_append upt) simp
      have d: "entries = acc @ map2 (\<lambda>slot k. make_entry (obj_get slot ''file_id'')
                                      (title_at options k)) (slot # slots) [i..<length filePaths]"
        using s(3) by (simp only: upt) simp
      from a b c d show ?thesis
        using Inr by (simp only: sum.case) blast
    qed
    with tr' fin show ?case
      by blast
  qed
qed


lemma uploadFiles_cases:
  assumes "uploadFiles c rt filePaths options tr = (res, tr')"
  shows
    "(\<exists>err done ev. res = Inl err \<and> tr' = tr @ done @ [ev] \<and>
        requests_to ''files.completeUploadExternal'' (done @ [ev]) = [] \<and>
        \<not> list_ex failed_step done \<and> failed_step ev \<and> failure_of ev = Some err) \<or>
     (\<exists>entries slots new quiet.
        tr' = tr @ new @ quiet @
          [Request ''files.completeUploadExternal''
             (completeUpload_params entries
                [(''channel_id'', channel_id options), (''thread_ts'', thread_ts options),
                 (''initial_comment'', initial_comment options)]) res] \<and>
        requests_to ''files.completeUploadExternal'' new = [] \<and>
        \<not> list_ex failed_step new \<and>
        quiet = report options ''Finalizing upload...'' [] \<and>
        map snd (requests_to ''files.getUploadURLExternal'' new) = map Inr slots \<and>
        map (\<lambda>p. obj_get (fst p) ''filename'')
            (requests_to ''files.getUploadURLExternal'' new) =
          map (\<lambda>k. JStr (filename_of (filePaths ! k))) [0..<length filePaths] \<and>
        entries = map2 (\<lambda>slot k. make_entry (obj_get slot ''file_id'') (title_at options k))
                    slots [0..<length filePaths])"
proof -
  obtain lres tr1 where loop: "uploadFiles_loop c rt filePaths options 0 [] tr = (lres, tr1)"
    by (cases "uploadFiles_loop c rt filePaths options 0 [] tr")
  from uploadFiles_loop_run [OF loop] obtain new where
    new: "tr1 = tr @ new" "requests_to ''files.completeUploadExternal'' new = []"
    and post: "case lres of
        Inl err \<Rightarrow>
          (\<exists>done ev. new = done @ [ev] \<and> \<not> list_ex failed_step done \<and>
             failed_step ev \<and> failure_of ev = Some err)
      | Inr entries \<Rightarrow>
          \<not> list_ex failed_step new \<and>
          (\<exists>slots.
             map snd (requests_to ''files.getUploadURLExternal'' new) = map Inr slots \<and>
             map (\<lambda>p. obj_get (fst p) ''filename'')
                 (requests_to ''files.getUploadURLExternal'' new) =
               map (\<lambda>k. JStr (filename_of (filePaths ! k))) [0..<length filePaths] \<and>
             entries = [] @ map2 (\<lambda>slot k. make_entry (obj_get slot ''file_id'')
                                      (title_at options k)) slots [0..<length filePaths])"
    by blast
  show ?thesis
  proof (cases lres)
    case (Inl err)
    with post obtain "done" ev where
      d: "new = done @ [ev]" "\<not> list_ex failed_step done" "failed_step ev"
        "failure_of ev = Some err"
      by auto
    have "res = Inl err" "tr' = tr @ done @ [ev]"
      using assms loop Inl new(1) d(1) by (simp_all add: uploadFiles_def)
    moreover have "requests_to ''files.completeUploadExternal'' (done @ [ev]) = []"
      using new(2) d(1) by simp
    ultimately show ?thesis
      using d(2,3,4) by blast
  next
    case (Inr entries)
    with post obtain slots where
      ok: "\<not> list_ex failed_step new"
      and s: "map snd (requests_to ''files.getUploadURLExternal'' new) = map Inr slots"
        "map (\<lambda>p. obj_get (fst p) ''filename'')
                 (requests_to ''files.getUploadURLExternal'' new) =
               map (\<lambda>k. JStr (filename_of (filePaths ! k))) [0..<length filePaths]"
        "entries = map2 (\<lambda>slot k. make_entry (obj_get slot ''file_id'')
                                      (title_at options k)) slots [0..<length filePaths]"
      by auto
    let ?opts = "[(''channel_id'', channel_id options), (''thread_ts'', thread_ts options),
                 (''initial_comment'', initial_comment options)]"
    have fin: "completeUpload c rt entries ?opts (report options ''Finalizing upload...'' tr1) =
        (res, tr')"
      using assms loop Inr by (simp add: uploadFiles_def)
    have "tr' = report options ''Finalizing upload...'' tr1 @
        [Request ''files.completeUploadExternal'' (completeUpload_params entries ?opts) res]"
      using fin by (simp add: completeUpload_def request_run)
    then have "tr' = tr @ new @ report options ''Finalizing upload...'' [] @
        [Request ''files.completeUploadExternal'' (completeUpload_params entries ?opts) res]"
      using new(1) report_append [of options "''Finalizing upload...''" tr1] by simp
    with new(2) ok s show ?thesis
      by blast
  qed
qed


lemma make_entry_alt:
  "make_entry file_id title =
     JObj (if truthy title then [(''id'', file_id), (''title'', title)] else [(''id'', file_id)])"
  by (simp add: make_entry_def enumerated_before_def is_array_index_def)

lemma no_failed_filter: "\<not> list_ex failed_step xs \<Longrightarrow> filter failed_step xs = []"
  by (induction xs) auto

lemma finalize_not_failed: "\<not> failed_step (Request ''files.completeUploadExternal'' params r)"
  by (cases r) simp_all

text \<open>
  C2: when, in a run of \<^verbatim>\<open>uploadFiles\<close>, a slot request or a transfer fails for some file
  (or the file cannot be read), the run ends there: that failure is the one thrown to the
  caller, it is the only failed step and the last event of the run, and no
  \<^verbatim>\<open>files.completeUploadExternal\<close> request is made.
\<close>

theorem uploadFiles_fail_fast:
  assumes "uploadFiles c rt filePaths options tr = (res, tr')"
    and "ev \<in> set (drop (length tr) tr')"
    and "failed_step ev"
  shows "\<exists>err. res = Inl err \<and> failure_of ev = Some err \<and> last tr' = ev \<and>
     filter failed_step (drop (length tr) tr') = [ev] \<and>
     requests_to ''files.completeUploadExternal'' tr' =
       requests_to ''files.completeUploadExternal'' tr"
  using uploadFiles_cases [OF assms(1)]
proof (elim disjE exE conjE, goal_cases)
  case (1 err "done" ev0)
  have new: "drop (length tr) tr' = done @ [ev0]"
    using 1(2) by simp
  have "ev \<notin> set done"
    using 1(4) assms(3) by (auto simp: list_ex_iff)
  with assms(2) new have ev: "ev = ev0"
    by simp
  have "filter failed_step (drop (length tr) tr') = [ev]"
    using new ev 1(5) no_failed_filter [OF 1(4)] by simp
  moreover have "last tr' = ev"
    using 1(2) ev by simp
  moreover have "requests_to ''files.completeUploadExternal'' tr' =
       requests_to ''files.completeUploadExternal'' tr"
    using 1(2,3) requests_to_append [of "''files.completeUploadExternal''" tr "done @ [ev0]"]
    by simp
  ultimately show ?case
    using 1(1,6) ev by blast
next
  case (2 entries slots new quiet)
  have "\<not> list_ex failed_step (drop (length tr) tr')"
    using 2(1,3,4) by (simp add: report_quiet finalize_not_failed)
  with assms(2,3) show ?case
    by (auto simp: list_ex_iff)
qed

theorem uploadFiles_fail_fast_witness:
  "fst (uploadFiles standard_client (upload_rt ''b.txt'') sample_paths sample_upload_options []) =
     Inl (Error ''File upload failed: HTTP 500'') \<and>
   Transfer (JStr ''https://up/b.txt'') ''data'' ''b.txt''
       (Inl (Error ''File upload failed: HTTP 500''))
     \<in> set (snd (uploadFiles standard_client (upload_rt ''b.txt'') sample_paths
                    sample_upload_options [])) \<and>
   failed_step (Transfer (JStr ''https://up/b.txt'') ''data'' ''b.txt''
       (Inl (Error ''File upload failed: HTTP 500''))) \<and>
   requests_to ''files.completeUploadExternal''
     (snd (uploadFiles standard_client (upload_rt ''b.txt'') sample_paths
             sample_upload_options [])) = []"
proof -
  let ?ev = "Transfer (JStr ''https://up/b.txt'') ''data'' ''b.txt''
       (Inl (Error ''File upload failed: HTTP 500''))"
  let ?tr = "[FileRead ''/tmp/a.txt'' (Inr ''data''),
        Request ''files.getUploadURLExternal''
          [(''filename'', JStr ''a.txt''), (''length'', JStr ''4'')]
          (Inr [(''ok'', JBool True), (''upload_url'', JStr ''https://up/a.txt''),
                (''file_id'', JStr ''F1'')]),
        Transfer (JStr ''https://up/a.txt'') ''data'' ''a.txt'' (Inr ()),
        FileRead ''/tmp/b.txt'' (Inr ''data''),
        Request ''files.getUploadURLExternal''
          [(''filename'', JStr ''b.txt''), (''length'', JStr ''4'')]
          (Inr [(''ok'', JBool True), (''upload_url'', JStr ''https://up/b.txt''),
                (''file_id'', JStr ''F4'')]),
        ?ev]"
  have run: "uploadFiles standard_client (upload_rt ''b.txt'') sample_paths
      sample_upload_options [] = (Inl (Error ''File upload failed: HTTP 500''), ?tr)"
    by code_simp
  have step: "?ev \<in> set (drop (length ([] :: trace)) ?tr)"
    by simp
  have failed: "failed_step ?ev"
    by simp
  from uploadFiles_fail_fast [OF run step failed] show ?thesis
    using step failed by (simp only: run fst_conv snd_conv) simp
qed

text \<open>
  C10: when no step of a run of \<^verbatim>\<open>uploadFiles\<close> over \<open>M\<close> paths fails, there is one slot
  request per path, in order, and exactly one \<^verbatim>\<open>files.completeUploadExternal\<close> request. Its
  \<^verbatim>\<open>files\<close> parameter is the JSON text of \<open>M\<close> entries in the order of the paths; entry
  \<open>i\<close> has as \<^verbatim>\<open>id\<close> the \<^verbatim>\<open>file_id\<close> of the \<open>i\<close>-th slot response, and has a \<^verbatim>\<open>title\<close> exactly
  when \<^verbatim>\<open>options.titles[i]\<close> is truthy.
\<close>

theorem uploadFiles_finalizes_once:
  assumes "uploadFiles c rt filePaths options tr = (res, tr')"
    and "\<not> list_ex failed_step (drop (length tr) tr')"
  shows "\<exists>slots entries.
     map snd (requests_to ''files.getUploadURLExternal'' (drop (length tr) tr')) =
       map Inr slots \<and>
     map (\<lambda>p. obj_get (fst p) ''filename'')
         (requests_to ''files.getUploadURLExternal'' (drop (length tr) tr')) =
       map (\<lambda>filePath. JStr (filename_of filePath)) filePaths \<and>
     length slots = length filePaths \<and>
     length entries = length filePaths \<and>
     entries =
       map2 (\<lambda>slot k.
               JObj (if truthy (title_at options k)
                     then [(''id'', obj_get slot ''file_id''), (''title'', title_at options k)]
                     else [(''id'', obj_get slot ''file_id'')]))
         slots [0..<length filePaths] \<and>
     requests_to ''files.completeUploadExternal'' tr' =
       requests_to ''files.completeUploadExternal'' tr @
         [(completeUpload_params entries
             [(''channel_id'', channel_id options), (''thread_ts'', thread_ts options),
              (''initial_comment'', initial_comment options)], res)] \<and>
     obj_get (completeUpload_params entries
             [(''channel_id'', channel_id options), (''thread_ts'', thread_ts options),
              (''initial_comment'', initial_comment options)]) ''files'' =
       JStr (JSON_stringify (JArr entries))"
  using uploadFiles_cases [OF assms(1)]
proof (elim disjE exE conjE, goal_cases)
  case (1 err "done" ev0)
  have "list_ex failed_step (drop (length tr) tr')"
    using 1(2,5) by simp
  with assms(2) show ?case
    by simp
next
  case (2 entries slots new quiet)
  let ?opts = "[(''channel_id'', channel_id options), (''thread_ts'', thread_ts options),
              (''initial_comment'', initial_comment options)]"
  let ?fin = "Request ''files.completeUploadExternal'' (completeUpload_params entries ?opts) res"
  have new: "drop (length tr) tr' = new @ quiet @ [?fin]"
    using 2(1) by simp
  have quiet: "requests_to m quiet = []" for m
    using 2(4) by (simp add: report_quiet)
  have slot_reqs: "requests_to ''files.getUploadURLExternal'' (drop (length tr) tr') =
      requests_to ''files.getUploadURLExternal'' new"
    by (simp add: new requests_to_append quiet)
  have a: "map snd (requests_to ''files.getUploadURLExternal'' (drop (length tr) tr')) =
       map Inr slots"
    using 2(5) by (simp only: slot_reqs)
  have names: "map (\<lambda>k. JStr (filename_of (filePaths ! k))) [0..<length filePaths] =
      map (\<lambda>filePath. JStr (filename_of filePath)) filePaths"
    by (rule nth_equalityI) simp_all
  have b: "map (\<lambda>p. obj_get (fst p) ''filename'')
         (requests_to ''files.getUploadURLExternal'' (drop (length tr) tr')) =
       map (\<lambda>filePath. JStr (filename_of filePath)) filePaths"
    using 2(6) by (simp only: slot_reqs names)
  have "length (map snd (requests_to ''files.getUploadURLExternal'' new)) =
      length (map (\<lambda>p. obj_get (fst p) ''filename'')
         (requests_to ''files.getUploadURLExternal'' new))"
    by simp
  then have c: "length slots = length filePaths"
    by (simp only: 2(5) 2(6)) simp
  have e: "entries =
       map2 (\<lambda>slot k.
               JObj (if truthy (title_at options k)
                     then [(''id'', obj_get slot ''file_id''), (''title'', title_at options k)]
                     else [(''id'', obj_get slot ''file_id'')]))
         slots [0..<length filePaths]"
    using 2(7) by (simp only: make_entry_alt)
  have d: "length entries = length filePaths"
    using c by (simp add: e)
  have f: "requests_to ''files.completeUploadExternal'' tr' =
       requests_to ''files.completeUploadExternal'' tr @
         [(completeUpload_params entries ?opts, res)]"
    using 2(1,2) by (simp add: requests_to_append quiet)
  have g: "obj_get (completeUpload_params entries ?opts) ''files'' =
       JStr (JSON_stringify (JArr entries))"
    by (simp add: completeUpload_params_def obj_get_copy) (simp add: obj_get_def)
  from a b c d e f g show ?case
    by blast
qed

theorem uploadFiles_finalizes_once_witness:
  \<open>\<not> list_ex failed_step
      (snd (uploadFiles standard_client (upload_rt ''none'') sample_paths
              sample_upload_options [])) \<and>
   requests_to ''files.completeUploadExternal''
      (snd (uploadFiles standard_client (upload_rt ''none'') sample_paths
              sample_upload_options [])) =
     [([(''files'', JStr ''[{"id":"F1","title":"First"},{"id":"F4"},{"id":"F7"}]''),
        (''channel_id'', JStr ''C1'')],
       Inr [(''ok'', JBool True)])]\<close>
proof -
  let ?tr = \<open>[FileRead ''/tmp/a.txt'' (Inr ''data''),
        Request ''files.getUploadURLExternal''
          [(''filename'', JStr ''a.txt''), (''length'', JStr ''4'')]
          (Inr [(''ok'', JBool True), (''upload_url'', JStr ''https://up/a.txt''),
                (''file_id'', JStr ''F1'')]),
        Transfer (JStr ''https://up/a.txt'') ''data'' ''a.txt'' (Inr ()),
        FileRead ''/tmp/b.txt'' (Inr ''data''),
        Request ''files.getUploadURLExternal''
          [(''filename'', JStr ''b.txt''), (''length'', JStr ''4'')]
          (Inr [(''ok'', JBool True), (''upload_url'', JStr ''https://up/b.txt''),
                (''file_id'', JStr ''F4'')]),
        Transfer (JStr ''https://up/b.txt'') ''data'' ''b.txt'' (Inr ()),
        FileRead ''c.txt'' (Inr ''data''),
        Request ''files.getUploadURLExternal''
          [(''filename'', JStr ''c.txt''), (''length'', JStr ''4'')]
          (Inr [(''ok'', JBool True), (''upload_url'', JStr ''https://up/c.txt''),
                (''file_id'', JStr ''F7'')]),
        Transfer (JStr ''https://up/c.txt'') ''data'' ''c.txt'' (Inr ()),
        Request ''files.completeUploadExternal''
          [(''files'', JStr ''[{"id":"F1","title":"First"},{"id":"F4"},{"id":"F7"}]''),
           (''channel_id'', JStr ''C1'')]
          (Inr [(''ok'', JBool True)])]\<close>
  have run: "uploadFiles standard_client (upload_rt ''none'') sample_paths
      sample_upload_options [] = (Inr [(''ok'', JBool True)], ?tr)"
    by code_simp
  have ok: "\<not> list_ex failed_step (drop (length ([] :: trace)) ?tr)"
    by simp
  from uploadFiles_finalizes_once [OF run ok] show ?thesis
    using ok by (simp only: run snd_conv) simp
qed

section \<open>Marking a conversation read\<close>

lemma history_limit_one:
  "getConversationHistory_params channelId [(''limit'', JNum 1)] =
     [(''channel'', channelId), (''limit'', JNum 1)]"
  by (simp add: getConversationHistory_params_def copy_if_truthy_def copy_if_defined_def
      obj_get_def enumerated_before_def is_array_index_def)

text \<open>
  C8: without a timestamp, \<^verbatim>\<open>mark-read\<close> first requests the history of the conversation
  with \<^verbatim>\<open>limit: 1\<close>. If that request fails the command fails. If the response has no
  messages (the field is missing or falsy, or is the empty array) the command ends as a
  no-op and no \<^verbatim>\<open>conversations.mark\<close> request is made. If the response's \<^verbatim>\<open>messages\<close> start
  with a message object, the second request follows: \<^verbatim>\<open>conversations.mark\<close> for the same
  channel with the \<^verbatim>\<open>ts\<close> of that first message, and its outcome is the command's. If
  the first message is \<open>null\<close>, reading its \<^verbatim>\<open>ts\<close> throws and the command fails without a
  mark request.
\<close>

theorem mark_read_without_timestamp:
  assumes "\<not> truthy timestamp"
    and "getConversationHistory c rt channelId [(''limit'', JNum 1)] tr = (r, tr1)"
  shows
    "tr1 = tr @ [Request ''conversations.history''
                  [(''channel'', channelId), (''limit'', JNum 1)] r] \<and>
     (\<forall>err. r = Inl err \<longrightarrow>
        mark_read_action c rt channelId timestamp tr = (MarkFailed (message_of err), tr1)) \<and>
     (\<forall>history.
        r = Inr history \<and>
        (\<not> truthy (obj_get history ''messages'') \<or> obj_get history ''messages'' = JArr []) \<longrightarrow>
        mark_read_action c rt channelId timestamp tr = (NothingToMark, tr1) \<and>
        requests_to ''conversations.mark'' tr1 = requests_to ''conversations.mark'' tr) \<and>
     (\<forall>history props ms r2 tr2.
        r = Inr history \<and> obj_get history ''messages'' = JArr (JObj props # ms) \<and>
        request c rt ''conversations.mark''
          [(''channel'', channelId), (''ts'', obj_get props ''ts'')] tr1 = (r2, tr2) \<longrightarrow>
        tr2 = tr1 @ [Request ''conversations.mark''
                       [(''channel'', channelId), (''ts'', obj_get props ''ts'')] r2] \<and>
        mark_read_action c rt channelId timestamp tr =
          (case r2 of
             Inl err \<Rightarrow> MarkFailed (message_of err)
           | Inr ok \<Rightarrow> Marked channelId (obj_get props ''ts''), tr2)) \<and>
     (\<forall>history ms.
        r = Inr history \<and> obj_get history ''messages'' = JArr (JNull # ms) \<longrightarrow>
        mark_read_action c rt channelId timestamp tr =
          (MarkFailed (typeError rt JNull ''ts''), tr1))"
proof -
  have tr1: "tr1 = tr @ [Request ''conversations.history''
                  [(''channel'', channelId), (''limit'', JNum 1)] r]"
    using assms(2) request_run [of c rt "''conversations.history''"
        "[(''channel'', channelId), (''limit'', JNum 1)]" tr r tr1]
    by (simp add: getConversationHistory_def history_limit_one)
  have failed: "\<forall>err. r = Inl err \<longrightarrow>
        mark_read_action c rt channelId timestamp tr = (MarkFailed (message_of err), tr1)"
    using assms by (simp add: mark_read_action_def)
  have empty: "\<forall>history.
        r = Inr history \<and>
        (\<not> truthy (obj_get history ''messages'') \<or> obj_get history ''messages'' = JArr []) \<longrightarrow>
        mark_read_action c rt channelId timestamp tr = (NothingToMark, tr1) \<and>
        requests_to ''conversations.mark'' tr1 = requests_to ''conversations.mark'' tr"
  proof (intro allI impI)
    fix history
    assume h: "r = Inr history \<and>
        (\<not> truthy (obj_get history ''messages'') \<or> obj_get history ''messages'' = JArr [])"
    then have "messages_or_empty history = JArr []"
      by (auto simp: messages_or_empty_def)
    then have "mark_read_action c rt channelId timestamp tr = (NothingToMark, tr1)"
      using assms h by (simp add: mark_read_action_def)
    moreover have "requests_to ''conversations.mark'' tr1 = requests_to ''conversations.mark'' tr"
      by (simp add: tr1 requests_to_append)
    ultimately show "mark_read_action c rt channelId timestamp tr = (NothingToMark, tr1) \<and>
        requests_to ''conversations.mark'' tr1 = requests_to ''conversations.mark'' tr"
      by simp
  qed
  have marked: "\<forall>history props ms r2 tr2.
        r = Inr history \<and> obj_get history ''messages'' = JArr (JObj props # ms) \<and>
        request c rt ''conversations.mark''
          [(''channel'', channelId), (''ts'', obj_get props ''ts'')] tr1 = (r2, tr2) \<longrightarrow>
        tr2 = tr1 @ [Request ''conversations.mark''
                       [(''channel'', channelId), (''ts'', obj_get props ''ts'')] r2] \<and>
        mark_read_action c rt channelId timestamp tr =
          (case r2 of
             Inl err \<Rightarrow> MarkFailed (message_of err)
           | Inr ok \<Rightarrow> Marked channelId (obj_get props ''ts''), tr2)"
  proof (intro allI impI, elim conjE)
    fix history props ms r2 tr2
    assume h: "r = Inr history" "obj_get history ''messages'' = JArr (JObj props # ms)"
      and req: "request c rt ''conversations.mark''
          [(''channel'', channelId), (''ts'', obj_get props ''ts'')] tr1 = (r2, tr2)"
    have m: "messages_or_empty history = JArr (JObj props # ms)"
      using h(2) by (simp add: messages_or_empty_def)
    have "mark_read_action c rt channelId timestamp tr =
        mark_with c rt channelId (obj_get props ''ts'') tr1"
      using assms h(1) m by (simp add: mark_read_action_def)
    also have "\<dots> = (case r2 of
             Inl err \<Rightarrow> MarkFailed (message_of err)
           | Inr ok \<Rightarrow> Marked channelId (obj_get props ''ts''), tr2)"
      using req
      by (cases r2)
         (simp_all add: mark_with_def markConversationRead_def markConversationRead_params_def)
    finally show "tr2 = tr1 @ [Request ''conversations.mark''
                       [(''channel'', channelId), (''ts'', obj_get props ''ts'')] r2] \<and>
        mark_read_action c rt channelId timestamp tr =
          (case r2 of
             Inl err \<Rightarrow> MarkFailed (message_of err)
           | Inr ok \<Rightarrow> Marked channelId (obj_get props ''ts''), tr2)"
      using request_run [OF req] by simp
  qed
  have null: "\<forall>history ms.
        r = Inr history \<and> obj_get history ''messages'' = JArr (JNull # ms) \<longrightarrow>
        mark_read_action c rt channelId timestamp tr =
          (MarkFailed (typeError rt JNull ''ts''), tr1)"
    using assms by (simp add: mark_read_action_def messages_or_empty_def)
  from tr1 failed empty marked null show ?thesis
    by (intro conjI)
qed

theorem mark_read_without_timestamp_witness:
  "\<not> truthy JUndefined \<and>
   mark_read_action standard_client (history_rt []) (JStr ''C1'') JUndefined [] =
     (NothingToMark,
      [Request ''conversations.history'' [(''channel'', JStr ''C1''), (''limit'', JNum 1)]
         (Inr [(''ok'', JBool True), (''messages'', JArr [])])]) \<and>
   mark_read_action standard_client (history_rt [JObj [(''ts'', JStr ''171.5'')]])
       (JStr ''C1'') JUndefined [] =
     (Marked (JStr ''C1'') (JStr ''171.5''),
      [Request ''conversations.history'' [(''channel'', JStr ''C1''), (''limit'', JNum 1)]
         (Inr [(''ok'', JBool True), (''messages'', JArr [JObj [(''ts'', JStr ''171.5'')]])]),
       Request ''conversations.mark'' [(''channel'', JStr ''C1''), (''ts'', JStr ''171.5'')]
         (Inr [(''ok'', JBool True)])])"
proof -
  let ?hist = "\<lambda>ms. Request ''conversations.history''
      [(''channel'', JStr ''C1''), (''limit'', JNum 1)]
      (Inr [(''ok'', JBool True), (''messages'', JArr ms)])"
  let ?mark = "Request ''conversations.mark'' [(''channel'', JStr ''C1''), (''ts'', JStr ''171.5'')]
         (Inr [(''ok'', JBool True)])"
  have h1: "\<not> truthy JUndefined" by simp
  have none: "getConversationHistory standard_client (history_rt []) (JStr ''C1'')
      [(''limit'', JNum 1)] [] =
     (Inr [(''ok'', JBool True), (''messages'', JArr [])], [?hist []])"
    by code_simp
  have one: "getConversationHistory standard_client (history_rt [JObj [(''ts'', JStr ''171.5'')]])
      (JStr ''C1'') [(''limit'', JNum 1)] [] =
     (Inr [(''ok'', JBool True), (''messages'', JArr [JObj [(''ts'', JStr ''171.5'')]])],
      [?hist [JObj [(''ts'', JStr ''171.5'')]]])"
    by code_simp
  have req: "request standard_client (history_rt [JObj [(''ts'', JStr ''171.5'')]])
      ''conversations.mark'' [(''channel'', JStr ''C1''), (''ts'', JStr ''171.5'')]
      [?hist [JObj [(''ts'', JStr ''171.5'')]]] =
     (Inr [(''ok'', JBool True)], [?hist [JObj [(''ts'', JStr ''171.5'')]], ?mark])"
    by code_simp
  have a: "mark_read_action standard_client (history_rt []) (JStr ''C1'') JUndefined [] =
      (NothingToMark, [?hist []])"
    using mark_read_without_timestamp [OF h1 none] by (simp add: obj_get_def)
  have b: "mark_read_action standard_client (history_rt [JObj [(''ts'', JStr ''171.5'')]])
       (JStr ''C1'') JUndefined [] =
      (Marked (JStr ''C1'') (JStr ''171.5''), [?hist [JObj [(''ts'', JStr ''171.5'')]], ?mark])"
  proof -
    from mark_read_without_timestamp [OF h1 one]
    have "\<forall>history props ms r2 tr2.
        (Inr [(''ok'', JBool True), (''messages'', JArr [JObj [(''ts'', JStr ''171.5'')]])]
           :: exn + jsobj) = Inr history \<and>
        obj_get history ''messages'' = JArr (JObj props # ms) \<and>
        request standard_client (history_rt [JObj [(''ts'', JStr ''171.5'')]])
          ''conversations.mark''
          [(''channel'', JStr ''C1''), (''ts'', obj_get props ''ts'')]
          [?hist [JObj [(''ts'', JStr ''171.5'')]]] = (r2, tr2) \<longrightarrow>
        tr2 = [?hist [JObj [(''ts'', JStr ''171.5'')]]] @
              [Request ''conversations.mark''
                 [(''channel'', JStr ''C1''), (''ts'', obj_get props ''ts'')] r2] \<and>
        mark_read_action standard_client (history_rt [JObj [(''ts'', JStr ''171.5'')]])
            (JStr ''C1'') JUndefined [] =
          (case r2 of
             Inl err \<Rightarrow> MarkFailed (message_of err)
           | Inr ok \<Rightarrow> Marked (JStr ''C1'') (obj_get props ''ts''), tr2)"
      by (elim conjE)
    from this [rule_format,
        of "[(''ok'', JBool True), (''messages'', JArr [JObj [(''ts'', JStr ''171.5'')]])]"
           "[(''ts'', JStr ''171.5'')]" "[]" "Inr [(''ok'', JBool True)]"
           "[?hist [JObj [(''ts'', JStr ''171.5'')]], ?mark]"]
    show ?thesis
      using req by (simp add: obj_get_def)
  qed
  from h1 a b show ?thesis
    by (intro conjI)
qed

text \<open>The shapes of \<^verbatim>\<open>messages\<close> that its declared type excludes: a non-empty string has a
  length and a first character without a \<^verbatim>\<open>ts\<close>, so the mark request goes out with
  \<open>undefined\<close>; a boolean or a number has no element 0, so reading \<^verbatim>\<open>ts\<close> throws; an
  object counts as empty when its \<^verbatim>\<open>length\<close> is 0.\<close>

lemma mark_read_unusual_messages:
  assumes "\<not> truthy timestamp"
    and "getConversationHistory c rt channelId [(''limit'', JNum 1)] tr = (Inr history, tr1)"
  shows "obj_get history ''messages'' = JStr (ch # s) \<Longrightarrow>
      mark_read_action c rt channelId timestamp tr = mark_with c rt channelId JUndefined tr1"
    and "obj_get history ''messages'' = JBool True \<or>
      obj_get history ''messages'' = JNumText t \<or>
      (obj_get history ''messages'' = JNum n \<and> n \<noteq> 0) \<Longrightarrow>
      mark_read_action c rt channelId timestamp tr =
        (MarkFailed (typeError rt JUndefined ''ts''), tr1)"
    and "obj_get history ''messages'' = JObj props \<Longrightarrow> obj_get props ''length'' = JNum 0 \<Longrightarrow>
      mark_read_action c rt channelId timestamp tr = (NothingToMark, tr1)"
    and "obj_get history ''messages'' = JObj props \<Longrightarrow> obj_get props ''length'' \<noteq> JNum 0 \<Longrightarrow>
      obj_get props ''0'' = JObj first \<Longrightarrow>
      mark_read_action c rt channelId timestamp tr =
        mark_with c rt channelId (obj_get first ''ts'') tr1"
  using assms
  by (auto simp: mark_read_action_def messages_or_empty_def)

end
